theory Spec2Isabelle
  imports Complex_Main "HOL-Library.Sublist"
begin

section \<open>Python values used by the two converters\<close>

text \<open>
  The repository holds two scripts, \<^verbatim>\<open>osmand2qgis_point.py\<close> and
  \<^verbatim>\<open>osmand2qgis_road.py\<close>. Their functions are embedded below under their own
  names. Python strings are character lists; exceptions are values of \<open>py_error\<close>.
\<close>

datatype py_error = ValueError | IndexError | ZeroDivisionError | OverflowError

subsection \<open>Strings\<close>

definition dquote :: char where
  "dquote = CHR 0x22"

definition apostrophe :: char where
  "apostrophe = CHR 0x27"

text \<open>\<^verbatim>\<open>str.isspace\<close> on a single character, for the code points below 256.\<close>

definition py_isspace :: "char \<Rightarrow> bool" where
  "py_isspace c =
     (let n = (of_char c :: int)
      in (9 \<le> n \<and> n \<le> 13) \<or> (28 \<le> n \<and> n \<le> 32) \<or> n = 133 \<or> n = 160)"

text \<open>\<^verbatim>\<open>s.strip()\<close>: leading and trailing whitespace removed.\<close>

definition strip :: "string \<Rightarrow> string" where
  "strip s = rev (dropWhile py_isspace (rev (dropWhile py_isspace s)))"

text \<open>
  The whitespace that \<^verbatim>\<open>int(s, 16)\<close> and \<^verbatim>\<open>float(s)\<close> skip at both ends of a
  string: the ASCII whitespace (9 to 13 and the blank), and the whitespace characters
  outside ASCII, which are first turned into blanks. The separators 28 to 31 are not
  skipped.
\<close>

definition numeric_space :: "char \<Rightarrow> bool" where
  "numeric_space c =
     (let n = (of_char c :: int)
      in (9 \<le> n \<and> n \<le> 13) \<or> n = 32 \<or> n = 133 \<or> n = 160)"

definition strip_numeric :: "string \<Rightarrow> string" where
  "strip_numeric s = rev (dropWhile numeric_space (rev (dropWhile numeric_space s)))"

text \<open>\<^verbatim>\<open>s.lstrip(chars)\<close>: every leading character that belongs to \<open>chars\<close> removed.\<close>

definition lstrip :: "string \<Rightarrow> string \<Rightarrow> string" where
  "lstrip chars s = dropWhile (\<lambda>c. c \<in> set chars) s"

text \<open>\<^verbatim>\<open>s.startswith(p)\<close>.\<close>

definition startswith :: "string \<Rightarrow> string \<Rightarrow> bool" where
  "startswith s p = (take (length p) s = p)"

text \<open>\<^verbatim>\<open>p in s\<close> for strings: \<open>p\<close> occurs in \<open>s\<close> as a contiguous block.\<close>

fun contains :: "string \<Rightarrow> string \<Rightarrow> bool" where
  "contains [] p = (p = [])"
| "contains (c # s) p = (startswith (c # s) p \<or> contains s p)"

text \<open>\<^verbatim>\<open>sep.join(parts)\<close>.\<close>

fun join :: "string \<Rightarrow> string list \<Rightarrow> string" where
  "join sep [] = []"
| "join sep [x] = x"
| "join sep (x # y # ys) = x @ sep @ join sep (y # ys)"

subsection \<open>Integers: \<^verbatim>\<open>str(n)\<close> and \<^verbatim>\<open>int(s, 16)\<close>\<close>

definition digit_char :: "int \<Rightarrow> char" where
  "digit_char d = char_of (48 + d)"

text \<open>The decimal digits of a non-negative integer, most significant first.\<close>

function str_nat :: "int \<Rightarrow> string" where
  "str_nat n = (if n < 10 then [digit_char n] else str_nat (n div 10) @ [digit_char (n mod 10)])"
  by pat_completeness auto
termination
  by (relation "measure nat") auto

definition str_int :: "int \<Rightarrow> string" where
  "str_int i = (if i < 0 then CHR ''-'' # str_nat (- i) else str_nat i)"

definition hex_digit :: "char \<Rightarrow> int option" where
  "hex_digit c =
     (let n = (of_char c :: int)
      in if 48 \<le> n \<and> n \<le> 57 then Some (n - 48)
         else if 97 \<le> n \<and> n \<le> 102 then Some (n - 87)
         else if 65 \<le> n \<and> n \<le> 70 then Some (n - 55)
         else None)"

text \<open>
  The digit part of an integer literal in base 16: hexadecimal digits, where single
  underscores may stand between two digits. The accumulator holds the value read so far
  and whether the previous character was a digit.
\<close>

fun hex_digits :: "int \<Rightarrow> bool \<Rightarrow> string \<Rightarrow> int option" where
  "hex_digits acc prev_digit [] = (if prev_digit then Some acc else None)"
| "hex_digits acc prev_digit (c # cs) =
     (if c = CHR ''_'' then (if prev_digit then hex_digits acc False cs else None)
      else (case hex_digit c of
              None \<Rightarrow> None
            | Some d \<Rightarrow> hex_digits (16 * acc + d) True cs))"

text \<open>
  \<^verbatim>\<open>int(s, 16)\<close>: surrounding whitespace is skipped, a sign and a \<^verbatim>\<open>0x\<close> prefix (which
  one underscore may follow) are accepted; \<open>None\<close> stands for the ValueError.
\<close>

definition int_base16 :: "string \<Rightarrow> int option" where
  "int_base16 s =
     (let t = strip_numeric s;
          neg = startswith t ''-'';
          u = (if startswith t ''-'' \<or> startswith t ''+'' then drop 1 t else t);
          v = (if startswith u ''0x'' \<or> startswith u ''0X''
               then (if startswith (drop 2 u) ''_'' then drop 3 u else drop 2 u)
               else u)
      in case hex_digits 0 False v of
           None \<Rightarrow> None
         | Some n \<Rightarrow> Some (if neg then - n else n))"

subsection \<open>Floats\<close>

text \<open>
  A Python float is an IEEE 754 binary64 value. A finite value is held as the rational
  number it denotes exactly; the negative zero, the infinities and the NaN are separate
  constructors.
\<close>

datatype pyfloat = Finite rat | NegZero | PosInf | NegInf | NaN

text \<open>Rounding of a rational to the nearest integer, ties to the even one.\<close>

definition round_half_even :: "rat \<Rightarrow> int" where
  "round_half_even q =
     (let f = \<lfloor>q\<rfloor>; d = q - of_int f
      in if d < 1 / 2 then f else if 1 / 2 < d then f + 1
         else if even f then f else f + 1)"

text \<open>The number of binary and of decimal digits of a positive integer.\<close>

function bit_length :: "int \<Rightarrow> int" where
  "bit_length n = (if n \<le> 0 then 0 else 1 + bit_length (n div 2))"
  by pat_completeness auto
termination
  by (relation "measure nat") auto

function dec_length :: "int \<Rightarrow> int" where
  "dec_length n = (if n \<le> 0 then 0 else 1 + dec_length (n div 10))"
  by pat_completeness auto
termination
  by (relation "measure nat") auto

text \<open>Powers with an integer exponent, by repeated squaring.\<close>

function ipow :: "rat \<Rightarrow> int \<Rightarrow> rat" where
  "ipow b k =
     (if k \<le> 0 then 1
      else (let h = ipow b (k div 2) in if even k then h * h else b * h * h))"
  by pat_completeness auto
termination
  by (relation "measure (\<lambda>(b, k). nat k)") auto

definition pow_int :: "rat \<Rightarrow> int \<Rightarrow> rat" where
  "pow_int b k = (if 0 \<le> k then ipow b k else 1 / ipow b (- k))"

text \<open>
  For a positive rational \<open>q\<close>: the integer \<open>e\<close> with \<open>2 ^ e \<le> q < 2 ^ (e + 1)\<close>, and the
  same for powers of ten. The lengths of numerator and denominator fix \<open>e\<close> up to one.
\<close>

definition ilog2 :: "rat \<Rightarrow> int" where
  "ilog2 q =
     (let (a, b) = quotient_of q;
          k = bit_length a - bit_length b
      in if pow_int 2 k \<le> q then k else k - 1)"

definition ilog10 :: "rat \<Rightarrow> int" where
  "ilog10 q =
     (let (a, b) = quotient_of q;
          k = dec_length a - dec_length b
      in if pow_int 10 k \<le> q then k else k - 1)"

text \<open>
  The binary64 value nearest to a rational (ties to even): 53 significant bits, gradual
  underflow below \<open>2 ^ -1022\<close>, overflow to an infinity from \<open>2 ^ 1024\<close> on.
\<close>

definition binary64 :: "rat \<Rightarrow> pyfloat" where
  "binary64 q =
     (if q = 0 then Finite 0
      else
        let a = \<bar>q\<bar>;
            e = max (ilog2 a) (- 1022);
            ulp = pow_int 2 (e - 52);
            m = round_half_even (a / ulp)
        in if 1024 \<le> e \<or> (e = 1023 \<and> 2 ^ 53 \<le> m)
           then (if q < 0 then NegInf else PosInf)
           else if m = 0 then (if q < 0 then NegZero else Finite 0)
           else Finite ((if q < 0 then - 1 else 1) * of_int m * ulp))"

text \<open>\<^verbatim>\<open>a / b\<close> on two Python integers: the correctly rounded quotient.\<close>

definition int_truediv :: "int \<Rightarrow> int \<Rightarrow> py_error + pyfloat" where
  "int_truediv a b =
     (if b = 0 then Inl ZeroDivisionError
      else (case binary64 (of_int a / of_int b) of
              PosInf \<Rightarrow> Inl OverflowError
            | NegInf \<Rightarrow> Inl OverflowError
            | x \<Rightarrow> Inr x))"

definition is_negative :: "pyfloat \<Rightarrow> bool" where
  "is_negative x =
     (case x of Finite q \<Rightarrow> q < 0 | NegZero \<Rightarrow> True | NegInf \<Rightarrow> True | _ \<Rightarrow> False)"

definition is_zero :: "pyfloat \<Rightarrow> bool" where
  "is_zero x = (x = Finite 0 \<or> x = NegZero)"

definition is_inf :: "pyfloat \<Rightarrow> bool" where
  "is_inf x = (x = PosInf \<or> x = NegInf)"

text \<open>\<^verbatim>\<open>x * y\<close> on two floats.\<close>

definition fmul :: "pyfloat \<Rightarrow> pyfloat \<Rightarrow> pyfloat" where
  "fmul x y =
     (let neg = (is_negative x \<noteq> is_negative y)
      in if x = NaN \<or> y = NaN then NaN
         else if (is_inf x \<and> is_zero y) \<or> (is_zero x \<and> is_inf y) then NaN
         else if is_inf x \<or> is_inf y then (if neg then NegInf else PosInf)
         else if is_zero x \<or> is_zero y then (if neg then NegZero else Finite 0)
         else (case (x, y) of
                 (Finite a, Finite b) \<Rightarrow> binary64 (a * b)
               | _ \<Rightarrow> NaN))"

text \<open>
  The format specification \<^verbatim>\<open>.Nf\<close>: the exact value rounded to \<open>N\<close> decimals, ties to
  even, as a digit string.
\<close>

definition zfill :: "nat \<Rightarrow> string \<Rightarrow> string" where
  "zfill n s = replicate (n - length s) CHR ''0'' @ s"

definition fixed_digits :: "nat \<Rightarrow> rat \<Rightarrow> string" where
  "fixed_digits n a =
     (let m = round_half_even (a * 10 ^ n)
      in str_nat (m div 10 ^ n) @
         (if n = 0 then [] else CHR ''.'' # zfill n (str_nat (m mod 10 ^ n))))"

definition fmt_f :: "nat \<Rightarrow> pyfloat \<Rightarrow> string" where
  "fmt_f n x =
     (case x of
        Finite q \<Rightarrow> (if q < 0 then ''-'' else []) @ fixed_digits n \<bar>q\<bar>
      | NegZero \<Rightarrow> ''-'' @ fixed_digits n 0
      | PosInf \<Rightarrow> ''inf''
      | NegInf \<Rightarrow> ''-inf''
      | NaN \<Rightarrow> ''nan'')"

text \<open>\<^verbatim>\<open>-x\<close> on a float.\<close>

definition fneg :: "pyfloat \<Rightarrow> pyfloat" where
  "fneg x =
     (case x of
        Finite q \<Rightarrow> (if q = 0 then NegZero else Finite (- q))
      | NegZero \<Rightarrow> Finite 0
      | PosInf \<Rightarrow> NegInf
      | NegInf \<Rightarrow> PosInf
      | NaN \<Rightarrow> NaN)"

text \<open>
  \<^verbatim>\<open>str(x)\<close> on a float: the shortest digit string that reads back as \<open>x\<close> (the one
  nearest to \<open>x\<close> when there are two of that length), in positional notation when the
  decimal point lies within \<open>(-4, 16]\<close> and in exponent notation otherwise. With \<open>k\<close>
  digits, only the two \<open>k\<close>-digit decimals around \<open>x\<close> can read back as \<open>x\<close>.
\<close>

definition try_digits :: "rat \<Rightarrow> int \<Rightarrow> int \<Rightarrow> int option" where
  "try_digits x p k =
     (let s = pow_int 10 (p - k + 1);
          t = x / s;
          lo = \<lfloor>t\<rfloor>;
          hi = lo + 1;
          ok_lo = (binary64 (of_int lo * s) = Finite x);
          ok_hi = (binary64 (of_int hi * s) = Finite x)
      in if ok_lo \<and> ok_hi then
           Some (if t - of_int lo < of_int hi - t then lo
                 else if of_int hi - t < t - of_int lo then hi
                 else if even lo then lo else hi)
         else if ok_lo then Some lo
         else if ok_hi then Some hi
         else None)"

fun shortest_from :: "nat \<Rightarrow> rat \<Rightarrow> int \<Rightarrow> int \<Rightarrow> int \<times> int" where
  "shortest_from 0 x p k = (round_half_even (x / pow_int 10 (p - k + 1)), k)"
| "shortest_from (Suc fuel) x p k =
     (case try_digits x p k of
        Some m \<Rightarrow> (m, k)
      | None \<Rightarrow> shortest_from fuel x p (k + 1))"

definition repr_positive :: "rat \<Rightarrow> string" where
  "repr_positive x =
     (let p = ilog10 x;
          (m, k) = shortest_from 16 x p 1;
          all_digits = str_nat m;
          decpt = p + 1 + (int (length all_digits) - k);
          ds = rev (dropWhile (\<lambda>c. c = CHR ''0'') (rev all_digits));
          n = int (length ds)
      in if - 4 < decpt \<and> decpt \<le> 16 then
           (if decpt \<le> 0 then ''0.'' @ replicate (nat (- decpt)) CHR ''0'' @ ds
            else if n \<le> decpt then ds @ replicate (nat (decpt - n)) CHR ''0'' @ ''.0''
            else take (nat decpt) ds @ ''.'' @ drop (nat decpt) ds)
         else
           take 1 ds @ (if 1 < n then ''.'' @ drop 1 ds else []) @ ''e'' @
           (if decpt - 1 < 0 then ''-'' else ''+'') @ zfill 2 (str_nat \<bar>decpt - 1\<bar>))"

definition float_str :: "pyfloat \<Rightarrow> string" where
  "float_str x =
     (case x of
        Finite q \<Rightarrow>
          (if q = 0 then ''0.0''
           else if q < 0 then ''-'' @ repr_positive (- q)
           else repr_positive q)
      | NegZero \<Rightarrow> ''-0.0''
      | PosInf \<Rightarrow> ''inf''
      | NegInf \<Rightarrow> ''-inf''
      | NaN \<Rightarrow> ''nan'')"

text \<open>
  \<^verbatim>\<open>float(s)\<close>: surrounding whitespace is skipped; a sign, then \<^verbatim>\<open>inf\<close>, \<^verbatim>\<open>infinity\<close>
  or \<^verbatim>\<open>nan\<close> in any letter case, or a decimal number with an optional fraction and
  exponent, whose digit groups may hold single underscores between digits. \<open>None\<close>
  stands for the ValueError.
\<close>

definition is_digit :: "char \<Rightarrow> bool" where
  "is_digit c = (48 \<le> (of_char c :: int) \<and> (of_char c :: int) \<le> 57)"

definition ascii_lower :: "char \<Rightarrow> char" where
  "ascii_lower c =
     (let n = (of_char c :: int) in if 65 \<le> n \<and> n \<le> 90 then char_of (n + 32) else c)"

fun digitpart_scan :: "bool \<Rightarrow> string \<Rightarrow> string option" where
  "digitpart_scan prev_digit [] = (if prev_digit then Some [] else None)"
| "digitpart_scan prev_digit (c # cs) =
     (if c = CHR ''_'' then (if prev_digit then digitpart_scan False cs else None)
      else if is_digit c then map_option ((#) c) (digitpart_scan True cs)
      else None)"

definition digitpart :: "string \<Rightarrow> string option" where
  "digitpart s = digitpart_scan False s"

definition digits_value :: "string \<Rightarrow> int" where
  "digits_value ds = foldl (\<lambda>a c. 10 * a + (of_char c - 48)) 0 ds"

definition float_exponent :: "string \<Rightarrow> int option" where
  "float_exponent rest =
     (if rest = [] then Some 0
      else
        let es = drop 1 rest;
            ed = (if startswith es ''-'' \<or> startswith es ''+'' then drop 1 es else es)
        in case digitpart ed of
             None \<Rightarrow> None
           | Some d \<Rightarrow> Some (if startswith es ''-'' then - digits_value d else digits_value d))"

definition float_mantissa :: "string \<Rightarrow> (string \<times> string) option" where
  "float_mantissa mant =
     (let ip = takeWhile (\<lambda>c. c \<noteq> CHR ''.'') mant;
          fr = dropWhile (\<lambda>c. c \<noteq> CHR ''.'') mant
      in if fr = [] then map_option (\<lambda>d. (d, [])) (digitpart ip)
         else
           let fp = drop 1 fr
           in if ip = [] \<and> fp = [] then None
              else
                (case (if ip = [] then Some [] else digitpart ip) of
                   None \<Rightarrow> None
                 | Some i \<Rightarrow>
                     (case (if fp = [] then Some [] else digitpart fp) of
                        None \<Rightarrow> None
                      | Some f \<Rightarrow> Some (i, f))))"

definition py_float :: "string \<Rightarrow> pyfloat option" where
  "py_float s =
     (let t = strip_numeric s;
          neg = startswith t ''-'';
          u = (if startswith t ''-'' \<or> startswith t ''+'' then drop 1 t else t);
          l = map ascii_lower u
      in if l = ''inf'' \<or> l = ''infinity'' then Some (if neg then NegInf else PosInf)
         else if l = ''nan'' then Some NaN
         else
           (case float_mantissa (takeWhile (\<lambda>c. c \<noteq> CHR ''e'' \<and> c \<noteq> CHR ''E'') u) of
              None \<Rightarrow> None
            | Some (i, f) \<Rightarrow>
                (case float_exponent (dropWhile (\<lambda>c. c \<noteq> CHR ''e'' \<and> c \<noteq> CHR ''E'') u) of
                   None \<Rightarrow> None
                 | Some ex \<Rightarrow>
                     (let x = binary64 (of_int (digits_value (i @ f)) *
                                        pow_int 10 (ex - int (length f)))
                      in Some (if neg then fneg x else x)))))"

text \<open>A float literal of the source text, such as \<^verbatim>\<open>0.8\<close> or \<^verbatim>\<open>2.0\<close>.\<close>

definition float_lit :: "rat \<Rightarrow> pyfloat" where
  "float_lit q = binary64 q"

section \<open>Colours (\<^verbatim>\<open>osmand2qgis_road.py\<close>)\<close>

text \<open>
  \<^verbatim>\<open>hex_to_rgb\<close>: leading \<^verbatim>\<open>#\<close> characters are stripped; a remainder of six characters
  is read as three base-16 channels (a ValueError when one is not a number), any other
  remainder gives the constant black string.
\<close>

definition hex_to_rgb :: "string \<Rightarrow> py_error + string" where
  "hex_to_rgb hex_color0 =
     (let hex_color = lstrip ''#'' hex_color0
      in if length hex_color = 6 then
           (case int_base16 (take 2 hex_color) of
              None \<Rightarrow> Inl ValueError
            | Some r \<Rightarrow>
           (case int_base16 (take 2 (drop 2 hex_color)) of
              None \<Rightarrow> Inl ValueError
            | Some g \<Rightarrow>
           (case int_base16 (take 2 (drop 4 hex_color)) of
              None \<Rightarrow> Inl ValueError
            | Some b \<Rightarrow>
           (case int_truediv r 255 of
              Inl e \<Rightarrow> Inl e
            | Inr fr \<Rightarrow>
           (case int_truediv g 255 of
              Inl e \<Rightarrow> Inl e
            | Inr fg \<Rightarrow>
           (case int_truediv b 255 of
              Inl e \<Rightarrow> Inl e
            | Inr fb \<Rightarrow>
                Inr (str_int r @ '','' @ str_int g @ '','' @ str_int b @ '',255,rgb:'' @
                     fmt_f 10 fr @ '','' @ fmt_f 10 fg @ '','' @ fmt_f 10 fb @ '',1'')))))))
         else Inr ''0,0,0,255,rgb:0,0,0,1'')"

text \<open>
  \<^verbatim>\<open>resolve_color_variable\<close>: the dictionary \<^verbatim>\<open>color_definitions\<close> is a map from
  names to colour strings.
\<close>

definition resolve_color_variable :: "string \<Rightarrow> (string \<rightharpoonup> string) \<Rightarrow> string" where
  "resolve_color_variable color_var color_definitions =
     (if startswith color_var ''$'' then
        (let var_name = drop 1 color_var
         in case color_definitions var_name of
              Some v \<Rightarrow> v
            | None \<Rightarrow> ''#000000'')
      else if startswith color_var ''#'' then color_var
      else ''#000000'')"

section \<open>Element trees\<close>

text \<open>
  A node of a parsed document (the library's \<^verbatim>\<open>_Element\<close>): an element with its tag, its
  attributes in document order, the text before its first child, its children and the
  text after its end tag (\<^verbatim>\<open>tail\<close>); or a comment with its tail. An absent text is the
  empty string.
\<close>

datatype node =
    Element string "(string \<times> string) list" string "node list" string
  | Comment string string

fun ntag :: "node \<Rightarrow> string option" where
  "ntag (Element t a x cs tail) = Some t"
| "ntag (Comment c tail) = None"

fun attrib :: "node \<Rightarrow> (string \<times> string) list" where
  "attrib (Element t a x cs tail) = a"
| "attrib (Comment c tail) = []"

fun children :: "node \<Rightarrow> node list" where
  "children (Element t a x cs tail) = cs"
| "children (Comment c tail) = []"

text \<open>\<^verbatim>\<open>elem.get(key)\<close>; \<^verbatim>\<open>key in elem.attrib\<close> is \<open>attr_get elem key \<noteq> None\<close>.\<close>

definition attr_get :: "node \<Rightarrow> string \<Rightarrow> string option" where
  "attr_get n k = map_of (attrib n) k"

text \<open>The proper descendants of a node, in document order.\<close>

fun descendants :: "node \<Rightarrow> node list" where
  "descendants (Element t a x cs tail) = concat (map (\<lambda>c. c # descendants c) cs)"
| "descendants (Comment c tail) = []"

text \<open>
  An element together with the chain that \<^verbatim>\<open>getparent()\<close> walks: its parent first, the
  root of the document last.
\<close>

type_synonym elem_ref = "node \<times> node list"

fun descendant_refs :: "node list \<Rightarrow> node \<Rightarrow> elem_ref list" where
  "descendant_refs up (Element t a x cs tail) =
     concat (map (\<lambda>c. (c, Element t a x cs tail # up) #
                       descendant_refs (Element t a x cs tail # up) c) cs)"
| "descendant_refs up (Comment c tail) = []"

text \<open>The path \<^verbatim>\<open>.//name\<close>: the descendant elements with that tag, in document order.\<close>

definition find_descendants :: "node \<Rightarrow> string \<Rightarrow> node list" where
  "find_descendants n name = filter (\<lambda>d. ntag d = Some name) (descendants n)"

text \<open>A path predicate \<^verbatim>\<open>[@key]\<close>: the attribute is present.\<close>

definition has_attr :: "string \<Rightarrow> node \<Rightarrow> bool" where
  "has_attr k n = (attr_get n k \<noteq> None)"

subsection \<open>Serialisation: \<^verbatim>\<open>etree.tostring(elem, encoding='unicode')\<close>\<close>

fun escape_text_char :: "char \<Rightarrow> string" where
  "escape_text_char c =
     (if c = CHR ''&'' then ''&amp;''
      else if c = CHR ''<'' then ''&lt;''
      else if c = CHR ''>'' then ''&gt;''
      else if c = CHR 0x0D then ''&#13;''
      else [c])"

fun escape_attr_char :: "char \<Rightarrow> string" where
  "escape_attr_char c =
     (if c = CHR ''&'' then ''&amp;''
      else if c = CHR ''<'' then ''&lt;''
      else if c = CHR ''>'' then ''&gt;''
      else if c = dquote then ''&quot;''
      else if c = CHR 0x0A then ''&#10;''
      else if c = CHR 0x0D then ''&#13;''
      else if c = CHR 0x09 then ''&#9;''
      else [c])"

definition serialize_attr :: "string \<times> string \<Rightarrow> string" where
  "serialize_attr kv =
     '' '' @ fst kv @ ''='' @ [dquote] @ concat (map escape_attr_char (snd kv)) @ [dquote]"

text \<open>The element with its subtree, followed by its tail.\<close>

fun tostring :: "node \<Rightarrow> string" where
  "tostring (Element t a x cs tail) =
     ''<'' @ t @ concat (map serialize_attr a) @
     (if x = [] \<and> cs = [] then ''/>''
      else ''>'' @ concat (map escape_text_char x) @ concat (map tostring cs) @
           ''</'' @ t @ ''>'') @
     concat (map escape_text_char tail)"
| "tostring (Comment c tail) = ''<!--'' @ c @ ''-->'' @ concat (map escape_text_char tail)"

section \<open>Point symbols (\<^verbatim>\<open>osmand2qgis_point.py\<close>)\<close>

text \<open>An element made by \<^verbatim>\<open>ET.Element\<close> or \<^verbatim>\<open>ET.SubElement\<close>: no text, no tail.\<close>

definition new_element :: "string \<Rightarrow> (string \<times> string) list \<Rightarrow> node list \<Rightarrow> node" where
  "new_element t a cs = Element t a [] cs []"

text \<open>An \<^verbatim>\<open>Option\<close> element whose attributes are set in the order type, value, name.\<close>

definition option_elem :: "string \<Rightarrow> string \<Rightarrow> string \<Rightarrow> node" where
  "option_elem name opt_type v =
     new_element ''Option'' [(''type'', opt_type), (''value'', v), (''name'', name)] []"

text \<open>
  The \<^verbatim>\<open>data_defined_properties\<close> block, which both scripts build in the same way for
  the symbol and for each of its layers.
\<close>

definition data_defined_properties :: node where
  "data_defined_properties =
     new_element ''data_defined_properties'' []
       [new_element ''Option'' [(''type'', ''Map'')]
          [option_elem ''name'' ''QString'' [],
           new_element ''Option'' [(''name'', ''properties'')] [],
           option_elem ''type'' ''QString'' ''collection'']]"

definition shield_options :: "string \<Rightarrow> (string \<times> string \<times> string) list" where
  "shield_options shield_base64 =
     [(''angle'', ''QString'', ''0''),
      (''color'', ''QString'', ''255,255,255,255,rgb:1,1,1,1''),
      (''fixedAspectRatio'', ''QString'', ''0''),
      (''horizontal_anchor_point'', ''QString'', ''1''),
      (''name'', ''QString'', shield_base64),
      (''offset'', ''QString'', ''0,0''),
      (''offset_map_unit_scale'', ''QString'', ''3x:0,0,0,0,0,0''),
      (''offset_unit'', ''QString'', ''MM''),
      (''outline_color'', ''QString'', ''255,255,255,255,rgb:1,1,1,1''),
      (''outline_width'', ''QString'', ''0.4''),
      (''outline_width_map_unit_scale'', ''QString'', ''3x:0,0,0,0,0,0''),
      (''outline_width_unit'', ''QString'', ''MM''),
      (''scale_method'', ''QString'', ''diameter''),
      (''size'', ''QString'', ''6.8''),
      (''size_map_unit_scale'', ''QString'', ''3x:0,0,0,0,0,0''),
      (''size_unit'', ''QString'', ''MM''),
      (''vertical_anchor_point'', ''QString'', ''1'')]"

definition icon_options :: "string \<Rightarrow> (string \<times> string \<times> string) list" where
  "icon_options icon_base64 =
     [(''angle'', ''QString'', ''0''),
      (''color'', ''QString'', ''255,255,255,255,rgb:1,1,1,1''),
      (''fixedAspectRatio'', ''QString'', ''0''),
      (''horizontal_anchor_point'', ''QString'', ''1''),
      (''name'', ''QString'', icon_base64),
      (''offset'', ''QString'', ''0,0''),
      (''offset_map_unit_scale'', ''QString'', ''3x:0,0,0,0,0,0''),
      (''offset_unit'', ''QString'', ''MM''),
      (''outline_color'', ''QString'', ''255,255,255,255,rgb:1,1,1,1''),
      (''outline_width'', ''QString'', ''0.1''),
      (''outline_width_map_unit_scale'', ''QString'', ''3x:0,0,0,0,0,0''),
      (''outline_width_unit'', ''QString'', ''MM''),
      (''scale_method'', ''QString'', ''diameter''),
      (''size'', ''QString'', ''4.4''),
      (''size_map_unit_scale'', ''QString'', ''3x:0,0,0,0,0,0''),
      (''size_unit'', ''QString'', ''MM''),
      (''vertical_anchor_point'', ''QString'', ''1'')]"

text \<open>
  A marker layer: its \<^verbatim>\<open>Option\<close> map (one child per entry of the list, then the
  \<^verbatim>\<open>parameters\<close> entry) and its data-defined properties.
\<close>

definition svg_marker_layer :: "(string \<times> string \<times> string) list \<Rightarrow> node" where
  "svg_marker_layer opts =
     new_element ''layer''
       [(''pass'', ''0''), (''enabled'', ''1''), (''class'', ''SvgMarker''), (''locked'', ''0'')]
       [new_element ''Option'' [(''type'', ''Map'')]
          (map (\<lambda>(name, opt_type, v). option_elem name opt_type v) opts @
           [new_element ''Option'' [(''name'', ''parameters'')] []]),
        data_defined_properties]"

text \<open>\<^verbatim>\<open>create_qgis_symbol(value, icon_base64, shield_base64)\<close> of the point script.\<close>

definition create_qgis_symbol_point :: "string \<Rightarrow> string \<Rightarrow> string \<Rightarrow> node" where
  "create_qgis_symbol_point v icon_base64 shield_base64 =
     new_element ''symbol''
       [(''type'', ''marker''), (''frame_rate'', ''10''), (''tags'', ''OSMAnd''),
        (''clip_to_extent'', ''1''), (''is_animated'', ''0''), (''force_rhr'', ''0''),
        (''name'', v), (''alpha'', ''1'')]
       [data_defined_properties,
        svg_marker_layer (shield_options shield_base64),
        svg_marker_layer (icon_options icon_base64)]"

text \<open>
  \<^verbatim>\<open>find_shield_value(case_element)\<close>: the element's own \<^verbatim>\<open>shield\<close>, or else the
  \<^verbatim>\<open>shield\<close> of the nearest ancestor that is a \<^verbatim>\<open>switch\<close> or an \<^verbatim>\<open>apply\<close> and has one.
  \<open>shield_walk\<close> is the \<^verbatim>\<open>while parent is not None\<close> loop over the chain of parents.
\<close>

fun shield_walk :: "node list \<Rightarrow> string option" where
  "shield_walk [] = None"
| "shield_walk (parent # up) =
     (if ntag parent = Some ''switch'' \<and> attr_get parent ''shield'' \<noteq> None
      then attr_get parent ''shield''
      else if ntag parent = Some ''apply'' \<and> attr_get parent ''shield'' \<noteq> None
      then attr_get parent ''shield''
      else shield_walk up)"

definition find_shield_value :: "elem_ref \<Rightarrow> string option" where
  "find_shield_value r =
     (let case_element = fst r
      in if attr_get case_element ''shield'' \<noteq> None then attr_get case_element ''shield''
         else shield_walk (snd r))"

text \<open>
  An ancestor that hands its shield down: a \<^verbatim>\<open>switch\<close> or an \<^verbatim>\<open>apply\<close> element with a
  \<^verbatim>\<open>shield\<close> attribute.
\<close>

definition grouping_shield :: "node \<Rightarrow> bool" where
  "grouping_shield p =
     ((ntag p = Some ''switch'' \<or> ntag p = Some ''apply'') \<and> attr_get p ''shield'' \<noteq> None)"

section \<open>Road symbols (\<^verbatim>\<open>osmand2qgis_road.py\<close>)\<close>

text \<open>
  The dictionary that \<^verbatim>\<open>extract_road_info\<close> builds for a road. The key
  \<^verbatim>\<open>stroke_width\<close> is read with \<^verbatim>\<open>.get('stroke_width', 1.5)\<close>, so it may be absent.
\<close>

record road_info =
  tag :: string
  highway_value :: string
  color :: string
  symbol_name :: string
  stroke_width :: "pyfloat option"

definition line_props :: "string \<Rightarrow> string \<Rightarrow> string \<Rightarrow> string \<Rightarrow> (string \<times> string) list"
  where
  "line_props capstyle joinstyle line_color line_width =
     [(''align_dash_pattern'', ''0''),
      (''capstyle'', capstyle),
      (''customdash'', ''5;2''),
      (''customdash_map_unit_scale'', ''3x:0,0,0,0,0,0''),
      (''customdash_unit'', ''MM''),
      (''dash_pattern_offset'', ''0''),
      (''dash_pattern_offset_map_unit_scale'', ''3x:0,0,0,0,0,0''),
      (''dash_pattern_offset_unit'', ''MM''),
      (''draw_inside_polygon'', ''0''),
      (''joinstyle'', joinstyle),
      (''line_color'', line_color),
      (''line_style'', ''solid''),
      (''line_width'', line_width),
      (''line_width_unit'', ''MM''),
      (''offset'', ''0''),
      (''offset_map_unit_scale'', ''3x:0,0,0,0,0,0''),
      (''offset_unit'', ''MM''),
      (''ring_filter'', ''0''),
      (''trim_distance_end'', ''0''),
      (''trim_distance_end_map_unit_scale'', ''3x:0,0,0,0,0,0''),
      (''trim_distance_end_unit'', ''MM''),
      (''trim_distance_start'', ''0''),
      (''trim_distance_start_map_unit_scale'', ''3x:0,0,0,0,0,0''),
      (''trim_distance_start_unit'', ''MM''),
      (''tweak_dash_pattern_on_corners'', ''0''),
      (''use_custom_dash'', ''0''),
      (''width_map_unit_scale'', ''3x:0,0,0,0,0,0'')]"

definition simple_line_layer :: "string \<Rightarrow> (string \<times> string) list \<Rightarrow> node" where
  "simple_line_layer pass props =
     new_element ''layer''
       [(''pass'', pass), (''enabled'', ''1''), (''class'', ''SimpleLine''), (''locked'', ''0'')]
       [new_element ''Option'' [(''type'', ''Map'')]
          (map (\<lambda>(prop_name, prop_value). option_elem prop_name ''QString'' prop_value) props),
        data_defined_properties]"

text \<open>
  \<^verbatim>\<open>create_qgis_symbol(road_info, main_width_ratio=0.8)\<close> of the road script. The two
  calls of \<^verbatim>\<open>hex_to_rgb\<close> may raise; the stroke dictionary is built first.
\<close>

definition create_qgis_symbol_road :: "road_info \<Rightarrow> pyfloat \<Rightarrow> py_error + node" where
  "create_qgis_symbol_road road main_width_ratio =
     (let width = (case stroke_width road of Some w \<Rightarrow> w | None \<Rightarrow> float_lit (3 / 2))
      in case hex_to_rgb ''#565656'' of
           Inl e \<Rightarrow> Inl e
         | Inr stroke_color \<Rightarrow>
             (let main_width = fmul width main_width_ratio
              in case hex_to_rgb (color road) of
                   Inl e \<Rightarrow> Inl e
                 | Inr main_color \<Rightarrow>
                     Inr (new_element ''symbol''
                            [(''type'', ''line''), (''frame_rate'', ''10''), (''tags'', ''OSMAnd''),
                             (''clip_to_extent'', ''1''), (''is_animated'', ''0''),
                             (''force_rhr'', ''0''), (''name'', symbol_name road),
                             (''alpha'', ''1'')]
                            [data_defined_properties,
                             simple_line_layer ''0''
                               (line_props ''square'' ''bevel'' stroke_color (float_str width)),
                             simple_line_layer ''1''
                               (line_props ''round'' ''round'' main_color
                                  (fmt_f 5 main_width))])))"

text \<open>The default of the parameter \<^verbatim>\<open>main_width_ratio\<close>.\<close>

definition main_width_ratio_default :: pyfloat where
  "main_width_ratio_default = float_lit (4 / 5)"

section \<open>The point pipeline (\<^verbatim>\<open>main\<close> of \<^verbatim>\<open>osmand2qgis_point.py\<close>)\<close>

subsection \<open>Files and their encoding\<close>

text \<open>
  The file system as the script reads it: a map from paths to the bytes of the regular
  files; \<^verbatim>\<open>exists(path)\<close> is \<open>fs path \<noteq> None\<close>. \<^verbatim>\<open>base64.b64encode\<close> is the standard
  encoding of RFC 4648: three bytes give four characters, the last group is padded.
\<close>

definition b64_char :: "int \<Rightarrow> char" where
  "b64_char k =
     (if k < 26 then char_of (65 + k)
      else if k < 52 then char_of (97 + (k - 26))
      else if k < 62 then char_of (48 + (k - 52))
      else if k = 62 then CHR ''+''
      else CHR ''/'')"

fun b64encode :: "string \<Rightarrow> string" where
  "b64encode [] = []"
| "b64encode [a] =
     (let x = (of_char a :: int)
      in [b64_char (x div 4), b64_char ((x mod 4) * 16), CHR ''='', CHR ''=''])"
| "b64encode [a, b] =
     (let x = (of_char a :: int); y = (of_char b :: int)
      in [b64_char (x div 4), b64_char ((x mod 4) * 16 + y div 16),
          b64_char ((y mod 16) * 4), CHR ''=''])"
| "b64encode (a # b # c # rest) =
     (let x = (of_char a :: int); y = (of_char b :: int); z = (of_char c :: int)
      in [b64_char (x div 4), b64_char ((x mod 4) * 16 + y div 16),
          b64_char ((y mod 16) * 4 + z div 64), b64_char (z mod 64)] @ b64encode rest)"

definition icons_dir :: string where
  "icons_dir = ''OsmAnd-resources/rendering_styles/style-icons/poi-icons-svg''"

definition shields_dir :: string where
  "shields_dir = ''OsmAnd-resources/icons/svg/shields''"

subsection \<open>Extraction of the point rules\<close>

text \<open>
  \<^verbatim>\<open>root.findall(".//case[@tag][@value][@icon]")\<close>: the descendant \<^verbatim>\<open>case\<close> elements,
  filtered by the three predicates in turn. Each result is kept with its chain of
  parents, which \<^verbatim>\<open>find_shield_value\<close> walks later.
\<close>

definition findall_point_cases :: "node \<Rightarrow> elem_ref list" where
  "findall_point_cases doc_root =
     filter (\<lambda>r. has_attr ''icon'' (fst r))
       (filter (\<lambda>r. has_attr ''value'' (fst r))
          (filter (\<lambda>r. has_attr ''tag'' (fst r))
             (filter (\<lambda>r. ntag (fst r) = Some ''case'') (descendant_refs [] doc_root))))"

text \<open>\<^verbatim>\<open>attrs.get(key, "").strip()\<close>.\<close>

definition stripped_attr :: "node \<Rightarrow> string \<Rightarrow> string" where
  "stripped_attr c key = strip (case attr_get c key of Some v \<Rightarrow> v | None \<Rightarrow> [])"

text \<open>
  The test \<^verbatim>\<open>if not tag or not value or not icon_name: continue\<close>, negated: the cases
  that the loop processes further.
\<close>

definition is_point_rule :: "node \<Rightarrow> bool" where
  "is_point_rule c =
     (\<not> (stripped_attr c ''tag'' = [] \<or> stripped_attr c ''value'' = [] \<or>
         stripped_attr c ''icon'' = []))"

definition point_rules :: "node \<Rightarrow> elem_ref list" where
  "point_rules doc_root = filter (\<lambda>r. is_point_rule (fst r)) (findall_point_cases doc_root)"

text \<open>
  The reading of the claim about the extractor. An attribute is non-blank when it is
  present and holds a character that is not whitespace.
\<close>

definition nonblank_attr :: "node \<Rightarrow> string \<Rightarrow> bool" where
  "nonblank_attr n key =
     (case attr_get n key of
        None \<Rightarrow> False
      | Some v \<Rightarrow> list_ex (\<lambda>c. \<not> py_isspace c) v)"

definition carries_tag_value_icon :: "node \<Rightarrow> bool" where
  "carries_tag_value_icon n =
     (nonblank_attr n ''tag'' \<and> nonblank_attr n ''value'' \<and> nonblank_attr n ''icon'')"

subsection \<open>The loop over the cases\<close>

text \<open>
  The state of the loop: the children of \<^verbatim>\<open>symbols_container\<close> and the four counters.
\<close>

record point_state =
  symbols :: "node list"
  processed_count :: int
  skipped_no_shield :: int
  skipped_no_files :: int
  skipped_duplicates :: int

definition initial_point_state :: point_state where
  "initial_point_state =
     \<lparr>symbols = [], processed_count = 0, skipped_no_shield = 0, skipped_no_files = 0,
      skipped_duplicates = 0\<rparr>"

text \<open>
  The query \<^verbatim>\<open>.//symbol[@name='N']\<close> on the container: the descendant \<^verbatim>\<open>symbol\<close>
  elements whose \<^verbatim>\<open>name\<close> attribute is \<open>N\<close>.
\<close>

definition symbols_named :: "node \<Rightarrow> string \<Rightarrow> node list" where
  "symbols_named container n =
     filter (\<lambda>d. attr_get d ''name'' = Some n) (find_descendants container ''symbol'')"

text \<open>
  The script builds the path of that query by interpolating the symbol name into
  \<^verbatim>\<open>f".//symbol[@name='{symbol_name}']"\<close>. What the library's \<^verbatim>\<open>findall\<close> returns for
  the interpolated path is the parameter \<open>findall_interpolated\<close> of the loop. For a
  name without an apostrophe the path is the query above; a name with an apostrophe
  ends the quoted value early and gives a different path.
\<close>

definition interpolation_safe :: "(node \<Rightarrow> string \<Rightarrow> node list) \<Rightarrow> bool" where
  "interpolation_safe findall_interpolated =
     (\<forall>container n. apostrophe \<notin> set n \<longrightarrow>
        findall_interpolated container n = symbols_named container n)"

definition process_case ::
  "(node \<Rightarrow> string \<Rightarrow> node list) \<Rightarrow> (string \<rightharpoonup> string) \<Rightarrow> point_state \<Rightarrow> elem_ref \<Rightarrow>
   point_state" where
  "process_case findall_interpolated fs st c =
     (let icon_name = stripped_attr (fst c) ''icon'';
          tg = stripped_attr (fst c) ''tag'';
          v = stripped_attr (fst c) ''value''
      in if tg = [] \<or> v = [] \<or> icon_name = [] then st
         else
           let symbol_name = tg @ '':'' @ v;
               existing_symbols =
                 findall_interpolated (new_element ''symbols'' [] (symbols st)) symbol_name
           in if existing_symbols \<noteq> [] then
                st\<lparr>skipped_duplicates := skipped_duplicates st + 1\<rparr>
              else
                (case find_shield_value c of
                   None \<Rightarrow> st\<lparr>skipped_no_shield := skipped_no_shield st + 1\<rparr>
                 | Some shield \<Rightarrow>
                     if shield = [] then st\<lparr>skipped_no_shield := skipped_no_shield st + 1\<rparr>
                     else
                       (case fs (icons_dir @ ''/'' @ ''mx_'' @ icon_name @ ''.svg'') of
                          None \<Rightarrow> st\<lparr>skipped_no_files := skipped_no_files st + 1\<rparr>
                        | Some icon_bytes \<Rightarrow>
                            (case fs (shields_dir @ ''/'' @ ''h_'' @ shield @ ''.svg'') of
                               None \<Rightarrow> st\<lparr>skipped_no_files := skipped_no_files st + 1\<rparr>
                             | Some shield_bytes \<Rightarrow>
                                 st\<lparr>symbols := symbols st @
                                      [create_qgis_symbol_point symbol_name
                                         (''base64:'' @ b64encode icon_bytes)
                                         (''base64:'' @ b64encode shield_bytes)],
                                    processed_count := processed_count st + 1\<rparr>))))"

definition points_loop ::
  "(node \<Rightarrow> string \<Rightarrow> node list) \<Rightarrow> (string \<rightharpoonup> string) \<Rightarrow> elem_ref list \<Rightarrow> point_state"
  where
  "points_loop findall_interpolated fs cases =
     foldl (process_case findall_interpolated fs) initial_point_state cases"

text \<open>The output tree: the symbols and the five empty sections.\<close>

definition qgis_style_document :: "node list \<Rightarrow> node" where
  "qgis_style_document syms =
     new_element ''qgis_style'' [(''version'', ''2'')]
       [new_element ''symbols'' [] syms,
        new_element ''colorramps'' [] [],
        new_element ''textformats'' [] [],
        new_element ''labelsettings'' [] [],
        new_element ''legendpatchshapes'' [] [],
        new_element ''symbols3d'' [] []]"

text \<open>
  \<^verbatim>\<open>s.replace(old, new)\<close>: every occurrence of \<open>old\<close>, found from left to right
  without overlap, is replaced.
\<close>

function replace :: "string \<Rightarrow> string \<Rightarrow> string \<Rightarrow> string" where
  "replace old new s =
     (if old = [] then new @ concat (map (\<lambda>c. c # new) s)
      else if s = [] then []
      else if startswith s old then new @ replace old new (drop (length old) s)
      else hd s # replace old new (tl s))"
  by pat_completeness auto
termination
  by (relation "measure (\<lambda>(old, new, s). length s)") auto

text \<open>The declaration that the script looks for, and the text it puts in its place.\<close>

definition xml_declaration :: string where
  "xml_declaration =
     ''<?xml version='' @ [apostrophe] @ ''1.0'' @ [apostrophe] @
     '' encoding='' @ [apostrophe] @ ''utf-8'' @ [apostrophe] @ ''?>''"

definition doctype :: string where
  "doctype = ''<!DOCTYPE qgis_style>''"

text \<open>
  The file that \<^verbatim>\<open>main\<close> leaves behind. \<open>write_tree\<close> is the text that the library's
  \<^verbatim>\<open>tree.write(output_path, encoding="utf-8", xml_declaration=True)\<close> stores for the
  indented tree; the script reads it back and replaces the declaration.
\<close>

definition points_file ::
  "(node \<Rightarrow> string) \<Rightarrow> (node \<Rightarrow> string \<Rightarrow> node list) \<Rightarrow> (string \<rightharpoonup> string) \<Rightarrow> node \<Rightarrow> string"
  where
  "points_file write_tree findall_interpolated fs doc_root =
     (let st = points_loop findall_interpolated fs (findall_point_cases doc_root);
          content = write_tree (qgis_style_document (symbols st))
      in replace xml_declaration (xml_declaration @ [CHR 0x0A] @ doctype) content)"

text \<open>
  The symbol that a case yields when no earlier symbol has its name: \<open>None\<close> when the
  case is skipped for a blank attribute, a missing shield or a missing file.
\<close>

definition candidate_symbol :: "(string \<rightharpoonup> string) \<Rightarrow> elem_ref \<Rightarrow> node option" where
  "candidate_symbol fs c =
     (let icon_name = stripped_attr (fst c) ''icon'';
          tg = stripped_attr (fst c) ''tag'';
          v = stripped_attr (fst c) ''value''
      in if tg = [] \<or> v = [] \<or> icon_name = [] then None
         else
           (case find_shield_value c of
              None \<Rightarrow> None
            | Some shield \<Rightarrow>
                if shield = [] then None
                else
                  (case fs (icons_dir @ ''/'' @ ''mx_'' @ icon_name @ ''.svg'') of
                     None \<Rightarrow> None
                   | Some icon_bytes \<Rightarrow>
                       (case fs (shields_dir @ ''/'' @ ''h_'' @ shield @ ''.svg'') of
                          None \<Rightarrow> None
                        | Some shield_bytes \<Rightarrow>
                            Some (create_qgis_symbol_point (tg @ '':'' @ v)
                                    (''base64:'' @ b64encode icon_bytes)
                                    (''base64:'' @ b64encode shield_bytes))))))"

text \<open>
  Of a list of keyed items, those whose key has not occurred before: the first item of
  each key, in the order of the list.
\<close>

fun first_by_key :: "('a \<Rightarrow> 'k) \<Rightarrow> 'k list \<Rightarrow> 'a list \<Rightarrow> 'a list" where
  "first_by_key key seen [] = []"
| "first_by_key key seen (x # xs) =
     (if key x \<in> set seen then first_by_key key seen xs
      else x # first_by_key key (key x # seen) xs)"

section \<open>The road pipeline (\<^verbatim>\<open>osmand2qgis_road.py\<close>)\<close>

subsection \<open>\<^verbatim>\<open>extract_color_definitions\<close>\<close>

text \<open>
  The loop that picks \<^verbatim>\<open>best_case\<close>: the first case with the fewest attributes besides
  \<^verbatim>\<open>attrColorValue\<close> among those whose colour value starts with \<^verbatim>\<open>#\<close>. \<open>min_attrs\<close> is
  \<open>None\<close> for the initial infinity.
\<close>

fun best_case :: "nat option \<Rightarrow> node option \<Rightarrow> node list \<Rightarrow> node option" where
  "best_case min_attrs best [] = best"
| "best_case min_attrs best (c # cs) =
     (let attr_count = length (filter (\<lambda>k. k \<noteq> ''attrColorValue'') (map fst (attrib c)))
      in case attr_get c ''attrColorValue'' of
           None \<Rightarrow> best_case min_attrs best cs
         | Some color_value \<Rightarrow>
             if color_value \<noteq> [] \<and> startswith color_value ''#'' \<and>
                (case min_attrs of None \<Rightarrow> True | Some m \<Rightarrow> attr_count < m)
             then best_case (Some attr_count) (Some c) cs
             else best_case min_attrs best cs)"

definition color_defs_step :: "(string \<rightharpoonup> string) \<Rightarrow> node \<Rightarrow> (string \<rightharpoonup> string)" where
  "color_defs_step color_defs attr =
     (case attr_get attr ''name'' of
        None \<Rightarrow> color_defs
      | Some attr_name \<Rightarrow>
          if attr_name \<noteq> [] \<and> contains attr_name ''Color'' then
            (let cases = filter (has_attr ''attrColorValue'') (find_descendants attr ''case'')
             in case best_case None None cases of
                  None \<Rightarrow> color_defs
                | Some b \<Rightarrow> color_defs(attr_name := attr_get b ''attrColorValue''))
          else color_defs)"

definition manual_colors :: "(string \<times> string) list" where
  "manual_colors =
     [(''tertiaryRoadRouteDetailsColor'', ''#ffdb93''),
      (''footwayColor'', ''#fa8c16''),
      (''roadRoadColor'', ''#cdcdcd''),
      (''bridlewayColor'', ''#c76817''),
      (''pathColor'', ''#fa8c16''),
      (''cyclewayColor'', ''#178fe5'')]"

definition manual_step :: "(string \<rightharpoonup> string) \<Rightarrow> string \<times> string \<Rightarrow> (string \<rightharpoonup> string)" where
  "manual_step color_defs kv =
     (case color_defs (fst kv) of
        None \<Rightarrow> color_defs(fst kv \<mapsto> snd kv)
      | Some v \<Rightarrow> if \<not> startswith v ''#'' then color_defs(fst kv \<mapsto> snd kv) else color_defs)"

definition extract_color_definitions :: "node \<Rightarrow> (string \<rightharpoonup> string)" where
  "extract_color_definitions doc_root =
     foldl manual_step
       (foldl color_defs_step Map.empty (find_descendants doc_root ''renderingAttribute''))
       manual_colors"

subsection \<open>\<^verbatim>\<open>extract_stroke_width_for_zoom\<close>\<close>

text \<open>
  \<^verbatim>\<open>re.search(pattern + '"([^"]*)"', s)\<close> for a pattern without special characters:
  the leftmost place where the pattern is followed by a quoted value; the value is the
  text up to the next double quote.
\<close>

fun re_search_quoted :: "string \<Rightarrow> string \<Rightarrow> string option" where
  "re_search_quoted pat [] = None"
| "re_search_quoted pat (c # s) =
     (if startswith (c # s) (pat @ [dquote]) \<and> dquote \<in> set (drop (length pat + 1) (c # s))
      then Some (takeWhile (\<lambda>x. x \<noteq> dquote) (drop (length pat + 1) (c # s)))
      else re_search_quoted pat s)"

definition stroke_width_attrs :: "int \<Rightarrow> string list" where
  "stroke_width_attrs zoom_level =
     [''maxzoom='' @ [dquote] @ str_int zoom_level @ [dquote] @ '' strokeWidth='',
      ''minzoom='' @ [dquote] @ str_int zoom_level @ [dquote] @ '' strokeWidth='',
      ''strokeWidth='']"

text \<open>The loop over the patterns for one serialised case.\<close>

fun search_patterns :: "string \<Rightarrow> string list \<Rightarrow> string option" where
  "search_patterns case_str [] = None"
| "search_patterns case_str (attr_pattern # rest) =
     (if contains case_str attr_pattern then
        (case re_search_quoted attr_pattern case_str of
           Some width_str \<Rightarrow> Some width_str
         | None \<Rightarrow> search_patterns case_str rest)
      else search_patterns case_str rest)"

text \<open>The loop over the cases: the first case with a match ends the search.\<close>

fun search_cases :: "string list \<Rightarrow> node list \<Rightarrow> string option" where
  "search_cases pats [] = None"
| "search_cases pats (case_child # rest) =
     (case search_patterns (tostring case_child) pats of
        Some width_str \<Rightarrow> Some width_str
      | None \<Rightarrow> search_cases pats rest)"

text \<open>
  The cases that the two nested loops visit: for every \<^verbatim>\<open>apply\<close> descendant in document
  order, its \<^verbatim>\<open>case\<close> descendants.
\<close>

definition nested_cases :: "node \<Rightarrow> node list" where
  "nested_cases case_elm =
     concat (map (\<lambda>apply_elem. find_descendants apply_elem ''case'')
               (find_descendants case_elm ''apply''))"

text \<open>\<^verbatim>\<open>width_str.split(':')[0]\<close>.\<close>

definition split_head :: "char \<Rightarrow> string \<Rightarrow> string" where
  "split_head sep s = takeWhile (\<lambda>c. c \<noteq> sep) s"

definition extract_stroke_width_for_zoom :: "node \<Rightarrow> int \<Rightarrow> py_error + pyfloat" where
  "extract_stroke_width_for_zoom case_elm zoom_level =
     (case search_cases (stroke_width_attrs zoom_level) (nested_cases case_elm) of
        None \<Rightarrow> Inr (float_lit 2)
      | Some width_str \<Rightarrow>
          (case py_float (if CHR '':'' \<in> set width_str then split_head CHR '':'' width_str
                          else width_str) of
             None \<Rightarrow> Inl ValueError
           | Some w \<Rightarrow> Inr w))"

subsection \<open>\<^verbatim>\<open>extract_road_info\<close>\<close>

text \<open>
  \<^verbatim>\<open>f"Road {value.replace('_', ' ').title()}"\<close>. The built-in \<^verbatim>\<open>str.title\<close> is the
  parameter \<open>title\<close> of the road functions: its results for letters outside ASCII
  need not be characters of the 8-bit type used here.
\<close>

definition road_symbol_name :: "(string \<Rightarrow> string) \<Rightarrow> string \<Rightarrow> string" where
  "road_symbol_name title v = ''Road '' @ title (replace ''_'' '' '' v)"

text \<open>\<^verbatim>\<open>switch.xpath('.//case[@tag="highway"][@value][@color]')\<close>.\<close>

definition highway_cases :: "node \<Rightarrow> node list" where
  "highway_cases switch =
     filter (has_attr ''color'')
       (filter (has_attr ''value'')
          (filter (\<lambda>c. attr_get c ''tag'' = Some ''highway'') (find_descendants switch ''case'')))"

text \<open>\<^verbatim>\<open>line_section.xpath('.//switch[@minzoom="14"]')\<close>.\<close>

definition high_zoom_switches :: "node \<Rightarrow> node list" where
  "high_zoom_switches line_section =
     filter (\<lambda>s. attr_get s ''minzoom'' = Some ''14'') (find_descendants line_section ''switch'')"

text \<open>
  The test of the inner loop: \<^verbatim>\<open>tag == 'highway' and value and color_attr\<close>, without
  the membership test on \<^verbatim>\<open>processed_highways\<close>.
\<close>

definition eligible_case :: "node \<Rightarrow> bool" where
  "eligible_case c =
     (attr_get c ''tag'' = Some ''highway'' \<and>
      (case attr_get c ''value'' of None \<Rightarrow> False | Some v \<Rightarrow> v \<noteq> []) \<and>
      (case attr_get c ''color'' of None \<Rightarrow> False | Some col \<Rightarrow> col \<noteq> []))"

definition attr_or_empty :: "node \<Rightarrow> string \<Rightarrow> string" where
  "attr_or_empty c key = (case attr_get c key of Some v \<Rightarrow> v | None \<Rightarrow> [])"

text \<open>
  The two nested loops over switches and cases, run over the concatenated cases. The
  state is the set \<^verbatim>\<open>processed_highways\<close> (as a list) and the list \<^verbatim>\<open>roads\<close>; an
  exception of the width extraction ends the run.
\<close>

fun road_loop ::
  "(string \<Rightarrow> string) \<Rightarrow> (string \<rightharpoonup> string) \<Rightarrow> string list \<Rightarrow> road_info list \<Rightarrow>
   node list \<Rightarrow> py_error + (string list \<times> road_info list)" where
  "road_loop title color_definitions processed roads [] = Inr (processed, roads)"
| "road_loop title color_definitions processed roads (c # cs) =
     (if eligible_case c \<and> attr_or_empty c ''value'' \<notin> set processed then
        (case extract_stroke_width_for_zoom c 16 of
           Inl e \<Rightarrow> Inl e
         | Inr w \<Rightarrow>
             road_loop title color_definitions (attr_or_empty c ''value'' # processed)
               (roads @
                [\<lparr>tag = ''highway'',
                  highway_value = attr_or_empty c ''value'',
                  color = resolve_color_variable (attr_or_empty c ''color'') color_definitions,
                  symbol_name = road_symbol_name title (attr_or_empty c ''value''),
                  stroke_width = Some w\<rparr>])
               cs)
      else road_loop title color_definitions processed roads cs)"

definition additional_roads :: "(string \<times> string \<times> pyfloat) list" where
  "additional_roads =
     [(''service'', ''$serviceRoadColor'', float_lit (3 / 2)),
      (''pedestrian'', ''$pedestrianRoadColor'', float_lit (6 / 5)),
      (''footway'', ''$footwayColor'', float_lit 1),
      (''cycleway'', ''$cyclewayColor'', float_lit 1),
      (''path'', ''$pathColor'', float_lit 1),
      (''bridleway'', ''$bridlewayColor'', float_lit 1),
      (''steps'', ''$footwayColor'', float_lit 1),
      (''living_street'', ''$residentialRoadColor'', float_lit (9 / 5)),
      (''road'', ''$roadRoadColor'', float_lit (3 / 2))]"

definition additional_road ::
  "(string \<Rightarrow> string) \<Rightarrow> (string \<rightharpoonup> string) \<Rightarrow> string \<times> string \<times> pyfloat \<Rightarrow> road_info"
  where
  "additional_road title color_definitions info =
     \<lparr>tag = ''highway'',
      highway_value = fst info,
      color = resolve_color_variable (fst (snd info)) color_definitions,
      symbol_name = road_symbol_name title (fst info),
      stroke_width = Some (snd (snd info))\<rparr>"

definition extract_road_info ::
  "(string \<Rightarrow> string) \<Rightarrow> node \<Rightarrow> (string \<rightharpoonup> string) \<Rightarrow> py_error + road_info list" where
  "extract_road_info title doc_root color_definitions =
     (case find_descendants doc_root ''line'' of
        [] \<Rightarrow> Inl IndexError
      | line_section # _ \<Rightarrow>
          (case road_loop title color_definitions [] []
                  (concat (map highway_cases (high_zoom_switches line_section))) of
             Inl e \<Rightarrow> Inl e
           | Inr (processed, roads) \<Rightarrow>
               Inr (roads @
                    map (additional_road title color_definitions)
                      (filter (\<lambda>info. fst info \<notin> set processed) additional_roads))))"

subsection \<open>\<^verbatim>\<open>generate_qgis_style\<close>\<close>

text \<open>The loop that creates one symbol per road; the first exception ends it.\<close>

fun create_symbols :: "road_info list \<Rightarrow> py_error + node list" where
  "create_symbols [] = Inr []"
| "create_symbols (road # rest) =
     (case create_qgis_symbol_road road main_width_ratio_default of
        Inl e \<Rightarrow> Inl e
      | Inr symb \<Rightarrow>
          (case create_symbols rest of
             Inl e \<Rightarrow> Inl e
           | Inr symbs \<Rightarrow> Inr (symb # symbs)))"

definition road_symbols :: "(string \<Rightarrow> string) \<Rightarrow> node \<Rightarrow> py_error + node list" where
  "road_symbols title doc_root =
     (case extract_road_info title doc_root (extract_color_definitions doc_root) of
        Inl e \<Rightarrow> Inl e
      | Inr roads \<Rightarrow> create_symbols roads)"

text \<open>
  The bytes written to the output file. \<open>tostring_pretty\<close> is the library's
  \<^verbatim>\<open>etree.tostring(qgis_style, pretty_print=True, xml_declaration=False, encoding='utf-8')\<close>.
\<close>

definition generate_qgis_style ::
  "(string \<Rightarrow> string) \<Rightarrow> (node \<Rightarrow> string) \<Rightarrow> node \<Rightarrow> py_error + string" where
  "generate_qgis_style title tostring_pretty doc_root =
     (case road_symbols title doc_root of
        Inl e \<Rightarrow> Inl e
      | Inr symbs \<Rightarrow>
          Inr (doctype @ [CHR 0x0A] @ tostring_pretty (qgis_style_document symbs)))"

section \<open>Readings of the claims\<close>

text \<open>The \<^verbatim>\<open>name\<close> attribute of a symbol, and the name that a point case asks for.\<close>

definition name_of :: "node \<Rightarrow> string option" where
  "name_of s = attr_get s ''name''"

definition case_symbol_name :: "node \<Rightarrow> string" where
  "case_symbol_name c = stripped_attr c ''tag'' @ '':'' @ stripped_attr c ''value''"

definition is_point_symbol :: "node \<Rightarrow> bool" where
  "is_point_symbol s = (\<exists>v i sh. s = create_qgis_symbol_point v i sh)"

text \<open>
  The roads that \<^verbatim>\<open>extract_road_info\<close> meets, in encounter order, as pairs of value and
  colour reference: the eligible highway cases of the document, then the supplementary
  list.
\<close>

definition road_candidates :: "node \<Rightarrow> (string \<times> string) list" where
  "road_candidates doc_root =
     (case find_descendants doc_root ''line'' of
        [] \<Rightarrow> []
      | line_section # _ \<Rightarrow>
          map (\<lambda>c. (attr_or_empty c ''value'', attr_or_empty c ''color''))
            (filter eligible_case (concat (map highway_cases (high_zoom_switches line_section))))) @
     map (\<lambda>info. (fst info, fst (snd info))) additional_roads"

text \<open>
  A document that carries the document type directly after an XML declaration: it
  starts with \<^verbatim>\<open><?xml\<close>, and the text after the first \<^verbatim>\<open>?>\<close> starts with a line break
  and the document type.
\<close>

fun after_first :: "string \<Rightarrow> string \<Rightarrow> string option" where
  "after_first pat [] = None"
| "after_first pat (c # s) =
     (if startswith (c # s) pat then Some (drop (length pat) (c # s)) else after_first pat s)"

definition doctype_after_prolog :: "string \<Rightarrow> bool" where
  "doctype_after_prolog content =
     (startswith content ''<?xml'' \<and>
      (case after_first ''?>'' content of
         None \<Rightarrow> False
       | Some rest \<Rightarrow> startswith rest (CHR 0x0A # doctype)))"

section \<open>Worked examples\<close>

text \<open>
  \<^verbatim>\<open>s.title()\<close> on a string of ASCII characters: a letter that follows a letter is made
  lower case, any other letter upper case. It stands for the parameter \<open>title\<close> in the
  examples, whose strings are ASCII.
\<close>

definition ascii_upper :: "char \<Rightarrow> char" where
  "ascii_upper c =
     (let n = (of_char c :: int) in if 97 \<le> n \<and> n \<le> 122 then char_of (n - 32) else c)"

definition is_ascii_lower :: "char \<Rightarrow> bool" where
  "is_ascii_lower c = (97 \<le> (of_char c :: int) \<and> (of_char c :: int) \<le> 122)"

definition is_ascii_upper :: "char \<Rightarrow> bool" where
  "is_ascii_upper c = (65 \<le> (of_char c :: int) \<and> (of_char c :: int) \<le> 90)"

fun ascii_title_from :: "bool \<Rightarrow> string \<Rightarrow> string" where
  "ascii_title_from previous_is_cased [] = []"
| "ascii_title_from previous_is_cased (c # cs) =
     (if is_ascii_lower c then
        (if previous_is_cased then c else ascii_upper c) # ascii_title_from True cs
      else if is_ascii_upper c then
        (if previous_is_cased then ascii_lower c else c) # ascii_title_from True cs
      else c # ascii_title_from False cs)"

definition ascii_title :: "string \<Rightarrow> string" where
  "ascii_title s = ascii_title_from False s"

text \<open>
  A rendering style whose line section gives two highway values that differ only in an
  underscore.
\<close>

definition example_roads_document :: node where
  "example_roads_document =
     Element ''renderingStyle'' [] []
       [Element ''line'' [] []
          [Element ''switch'' [(''minzoom'', ''14'')] []
             [Element ''case''
                [(''tag'', ''highway''), (''value'', ''bus_guideway''), (''color'', ''#ffffff'')]
                [] [] [],
              Element ''case''
                [(''tag'', ''highway''), (''value'', ''bus guideway''), (''color'', ''#ffffff'')]
                [] [] []]
             []]
          []]
       []"

text \<open>
  A rendering style with two point rules of the same tag and value under a switch that
  hands down its shield, and the three files they refer to.
\<close>

definition example_points_document :: node where
  "example_points_document =
     Element ''renderingStyle'' [] []
       [Element ''switch'' [(''shield'', ''round'')] []
          [Element ''case''
             [(''tag'', ''amenity''), (''value'', ''bench''), (''icon'', ''bench'')] [] [] [],
           Element ''case''
             [(''tag'', ''amenity''), (''value'', ''bench''), (''icon'', ''seat'')] [] [] []]
          []]
       []"

definition example_files :: "string \<rightharpoonup> string" where
  "example_files =
     [icons_dir @ ''/mx_bench.svg'' \<mapsto> ''<svg>bench</svg>'',
      icons_dir @ ''/mx_seat.svg'' \<mapsto> ''<svg>seat</svg>'',
      shields_dir @ ''/h_round.svg'' \<mapsto> ''<svg>round</svg>'']"

text \<open>
  A serialiser that writes the XML declaration in the spelling the point script looks
  for, followed by a line break and the tree.
\<close>

definition declared_tostring :: "node \<Rightarrow> string" where
  "declared_tostring doc = xml_declaration @ [CHR 0x0A] @ tostring doc"

section \<open>Reading a generated symbol\<close>

text \<open>The \<^verbatim>\<open>layer\<close> children of a symbol, and the entry of a layer's option map.\<close>

definition layers :: "node \<Rightarrow> node list" where
  "layers symbol = filter (\<lambda>c. ntag c = Some ''layer'') (children symbol)"

definition layer_option :: "node \<Rightarrow> string \<Rightarrow> string option" where
  "layer_option layer name =
     (case filter (\<lambda>opt. attr_get opt ''name'' = Some name)
             (concat (map children (filter (\<lambda>c. ntag c = Some ''Option'') (children layer)))) of
        [] \<Rightarrow> None
      | opt # _ \<Rightarrow> attr_get opt ''value'')"

section \<open>Properties\<close>

declare str_nat.simps [simp del] bit_length.simps [simp del] dec_length.simps [simp del]
  ipow.simps [simp del] shortest_from.simps [simp del]

lemma startswith_single: "startswith s [c] = (\<exists>t. s = c # t)"
  by (cases s) (auto simp: startswith_def)

text \<open>
  C9. On the input \<^verbatim>\<open>#565656\<close> the conversion returns the three integer channels 86,
  the opacity 255, and each channel divided by 255 with ten decimals.
\<close>

lemma int_base16_56: "int_base16 ''56'' = Some 86"
  by code_simp

lemma int_truediv_86_255:
  "int_truediv 86 255 = Inr (Finite (3037722101598923 / 9007199254740992))"
  by code_simp

lemma fmt_f_86_255:
  "fmt_f 10 (Finite (3037722101598923 / 9007199254740992)) = ''0.3372549020''"
  by code_simp

lemma str_int_86: "str_int 86 = ''86''"
  by code_simp

theorem hex_to_rgb_565656:
  "hex_to_rgb ''#565656'' =
     Inr ''86,86,86,255,rgb:0.3372549020,0.3372549020,0.3372549020,1''"
  by (simp add: hex_to_rgb_def lstrip_def int_base16_56 int_truediv_86_255 fmt_f_86_255
      str_int_86)

text \<open>
  C10. When the input, stripped of its leading \<^verbatim>\<open>#\<close> characters, does not have length 6,
  the conversion returns the constant black string and raises nothing.
\<close>

theorem hex_to_rgb_fallback:
  "length (lstrip ''#'' s) \<noteq> 6 \<Longrightarrow> hex_to_rgb s = Inr ''0,0,0,255,rgb:0,0,0,1''"
  by (simp add: hex_to_rgb_def)

theorem hex_to_rgb_fallback_witness:
  "length (lstrip ''#'' ''##fff'') \<noteq> 6 \<and>
   hex_to_rgb ''##fff'' = Inr ''0,0,0,255,rgb:0,0,0,1''"
  using hex_to_rgb_fallback [of "''##fff''"] by (simp add: lstrip_def)

text \<open>
  C4. Resolution of a colour reference is a total function. A reference \<^verbatim>\<open>$name\<close> whose
  name has an entry in the table resolves to that entry; an input that starts with \<^verbatim>\<open>#\<close>
  is returned unchanged; every other input (a \<^verbatim>\<open>$name\<close> without an entry, or a string
  that starts with neither marker) resolves to \<^verbatim>\<open>#000000\<close>.
\<close>

theorem resolve_color_variable_cases:
  "(defs name = Some v \<longrightarrow> resolve_color_variable (CHR ''$'' # name) defs = v) \<and>
   (defs name = None \<longrightarrow> resolve_color_variable (CHR ''$'' # name) defs = ''#000000'') \<and>
   resolve_color_variable (CHR ''#'' # rest) defs = CHR ''#'' # rest \<and>
   (\<not> startswith s ''$'' \<and> \<not> startswith s ''#'' \<longrightarrow>
      resolve_color_variable s defs = ''#000000'')"
  by (simp add: resolve_color_variable_def startswith_def)

theorem resolve_color_variable_cases_witness:
  "([''motorwayRoadColor'' \<mapsto> ''#e6a100''] ''motorwayRoadColor'' = Some ''#e6a100'' \<and>
      resolve_color_variable ''$motorwayRoadColor''
        [''motorwayRoadColor'' \<mapsto> ''#e6a100''] = ''#e6a100'') \<and>
   ([''motorwayRoadColor'' \<mapsto> ''#e6a100''] ''trunkRoadColor'' = None \<and>
      resolve_color_variable ''$trunkRoadColor''
        [''motorwayRoadColor'' \<mapsto> ''#e6a100''] = ''#000000'') \<and>
   resolve_color_variable ''#cdcdcd'' [''motorwayRoadColor'' \<mapsto> ''#e6a100''] = ''#cdcdcd'' \<and>
   (\<not> startswith ''red'' ''$'' \<and> \<not> startswith ''red'' ''#'' \<and>
      resolve_color_variable ''red'' [''motorwayRoadColor'' \<mapsto> ''#e6a100''] = ''#000000'')"
  using resolve_color_variable_cases
    [of "[''motorwayRoadColor'' \<mapsto> ''#e6a100'']" "''motorwayRoadColor''" "''#e6a100''"
        "''cdcdcd''" "''red''"]
    resolve_color_variable_cases
    [of "[''motorwayRoadColor'' \<mapsto> ''#e6a100'']" "''trunkRoadColor''" "''#e6a100''"
        "''cdcdcd''" "''red''"]
  by (simp add: startswith_def)

lemma shield_walk_first:
  "\<forall>q\<in>set pre. \<not> grouping_shield q \<Longrightarrow> grouping_shield p \<Longrightarrow>
   shield_walk (pre @ p # post) = attr_get p ''shield''"
  by (induction pre) (auto simp: grouping_shield_def)

lemma shield_walk_none:
  "\<forall>q\<in>set up. \<not> grouping_shield q \<Longrightarrow> shield_walk up = None"
  by (induction up) (auto simp: grouping_shield_def)

text \<open>
  C3. The lookup returns the element's own \<^verbatim>\<open>shield\<close> attribute when it has one.
  Otherwise it returns the \<^verbatim>\<open>shield\<close> of the nearest ancestor that is a \<^verbatim>\<open>switch\<close> or
  an \<^verbatim>\<open>apply\<close> and has the attribute, and \<open>None\<close> when the chain of ancestors up to the
  root holds no such element. The function is total: it raises nothing.
\<close>

theorem find_shield_value_lookup:
  "(attr_get c ''shield'' = Some s \<longrightarrow> find_shield_value (c, up) = Some s) \<and>
   (attr_get c ''shield'' = None \<and> up = pre @ p # post \<and>
    (\<forall>q\<in>set pre. \<not> grouping_shield q) \<and> grouping_shield p \<longrightarrow>
      find_shield_value (c, up) = attr_get p ''shield'' \<and> attr_get p ''shield'' \<noteq> None) \<and>
   (attr_get c ''shield'' = None \<and> (\<forall>q\<in>set up. \<not> grouping_shield q) \<longrightarrow>
      find_shield_value (c, up) = None)"
proof (intro conjI impI)
  assume "attr_get c ''shield'' = Some s"
  then show "find_shield_value (c, up) = Some s"
    by (simp add: find_shield_value_def)
next
  assume h: "attr_get c ''shield'' = None \<and> up = pre @ p # post \<and>
    (\<forall>q\<in>set pre. \<not> grouping_shield q) \<and> grouping_shield p"
  then show "find_shield_value (c, up) = attr_get p ''shield''"
    by (simp add: find_shield_value_def shield_walk_first)
  from h show "attr_get p ''shield'' \<noteq> None"
    by (simp add: grouping_shield_def)
next
  assume "attr_get c ''shield'' = None \<and> (\<forall>q\<in>set up. \<not> grouping_shield q)"
  then show "find_shield_value (c, up) = None"
    by (simp add: find_shield_value_def shield_walk_none)
qed

theorem find_shield_value_lookup_witness:
  "attr_get (Element ''case'' [(''tag'', ''amenity''), (''shield'', ''square'')] [] [] [])
     ''shield'' = Some ''square'' \<and>
   find_shield_value
     (Element ''case'' [(''tag'', ''amenity''), (''shield'', ''square'')] [] [] [], []) =
     Some ''square'' \<and>
   attr_get (Element ''case'' [(''tag'', ''amenity'')] [] [] []) ''shield'' = None \<and>
   \<not> grouping_shield (Element ''group'' [(''shield'', ''hexagon'')] [] [] []) \<and>
   grouping_shield (Element ''switch'' [(''shield'', ''round'')] [] [] []) \<and>
   find_shield_value
     (Element ''case'' [(''tag'', ''amenity'')] [] [] [],
      [Element ''group'' [(''shield'', ''hexagon'')] [] [] [],
       Element ''switch'' [(''shield'', ''round'')] [] [] [],
       Element ''renderingStyle'' [] [] [] []]) = Some ''round'' \<and>
   find_shield_value
     (Element ''case'' [(''tag'', ''amenity'')] [] [] [],
      [Element ''group'' [(''shield'', ''hexagon'')] [] [] []]) = None"
  using
    find_shield_value_lookup
      [of "Element ''case'' [(''tag'', ''amenity''), (''shield'', ''square'')] [] [] []"
          "''square''" "[]" "[]" "Element ''switch'' [(''shield'', ''round'')] [] [] []" "[]"]
    find_shield_value_lookup
      [of "Element ''case'' [(''tag'', ''amenity'')] [] [] []" "''x''"
          "[Element ''group'' [(''shield'', ''hexagon'')] [] [] [],
            Element ''switch'' [(''shield'', ''round'')] [] [] [],
            Element ''renderingStyle'' [] [] [] []]"
          "[Element ''group'' [(''shield'', ''hexagon'')] [] [] []]"
          "Element ''switch'' [(''shield'', ''round'')] [] [] []"
          "[Element ''renderingStyle'' [] [] [] []]"]
    find_shield_value_lookup
      [of "Element ''case'' [(''tag'', ''amenity'')] [] [] []" "''x''"
          "[Element ''group'' [(''shield'', ''hexagon'')] [] [] []]"
          "[]" "Element ''switch'' [(''shield'', ''round'')] [] [] []" "[]"]
  by (simp add: attr_get_def grouping_shield_def)

subsection \<open>Evaluations used in the worked examples\<close>

lemma hex_dark_gray:
  "hex_to_rgb ''#565656'' =
     Inr ''86,86,86,255,rgb:0.3372549020,0.3372549020,0.3372549020,1''"
  by (simp add: hex_to_rgb_def lstrip_def int_base16_56 int_truediv_86_255 fmt_f_86_255
      str_int_86)

lemma int_base16_ff: "int_base16 ''ff'' = Some 255"
  by code_simp

lemma int_truediv_255_255: "int_truediv 255 255 = Inr (Finite 1)"
  by code_simp

lemma fmt_f_1: "fmt_f 10 (Finite 1) = ''1.0000000000''"
  by code_simp

lemma str_int_255: "str_int 255 = ''255''"
  by code_simp

lemma hex_white:
  "hex_to_rgb ''#ffffff'' =
     Inr ''255,255,255,255,rgb:1.0000000000,1.0000000000,1.0000000000,1''"
  by (simp add: hex_to_rgb_def lstrip_def int_base16_ff int_truediv_255_255 fmt_f_1
      str_int_255)

lemma ilog10_2: "ilog10 2 = 0"
  by code_simp

lemma shortest_from_2: "shortest_from 16 2 0 1 = (2, 1)"
  by code_simp

lemma str_nat_2: "str_nat 2 = ''2''"
  by code_simp

lemma float_str_2: "float_str (Finite 2) = ''2.0''"
  by (simp add: float_str_def repr_positive_def ilog10_2 shortest_from_2 str_nat_2)

lemma fmul_2_ratio:
  "fmul (Finite 2) main_width_ratio_default = Finite (3602879701896397 / 2251799813685248)"
  by code_simp

lemma fmt_f_2_ratio: "fmt_f 5 (Finite (3602879701896397 / 2251799813685248)) = ''1.60000''"
  by code_simp

subsection \<open>The layers of a generated symbol\<close>

lemma layers_point:
  "layers (create_qgis_symbol_point v icon_base64 shield_base64) =
     [svg_marker_layer (shield_options shield_base64),
      svg_marker_layer (icon_options icon_base64)]"
  by (simp add: layers_def create_qgis_symbol_point_def new_element_def
      data_defined_properties_def svg_marker_layer_def)

lemma svg_marker_layer_pass: "attr_get (svg_marker_layer opts) ''pass'' = Some ''0''"
  by (simp add: svg_marker_layer_def new_element_def attr_get_def)

lemma shield_layer_name:
  "layer_option (svg_marker_layer (shield_options b)) ''name'' = Some b"
  by (simp add: layer_option_def svg_marker_layer_def shield_options_def new_element_def
      option_elem_def attr_get_def data_defined_properties_def)

lemma icon_layer_name:
  "layer_option (svg_marker_layer (icon_options b)) ''name'' = Some b"
  by (simp add: layer_option_def svg_marker_layer_def icon_options_def new_element_def
      option_elem_def attr_get_def data_defined_properties_def)

lemma create_qgis_symbol_road_Inr:
  "create_qgis_symbol_road road ratio = Inr symb \<Longrightarrow>
   \<exists>main_color. hex_to_rgb (color road) = Inr main_color \<and>
     layers symb =
       [simple_line_layer ''0''
          (line_props ''square'' ''bevel''
             ''86,86,86,255,rgb:0.3372549020,0.3372549020,0.3372549020,1''
             (float_str (case stroke_width road of Some w \<Rightarrow> w | None \<Rightarrow> float_lit (3 / 2)))),
        simple_line_layer ''1''
          (line_props ''round'' ''round'' main_color
             (fmt_f 5 (fmul (case stroke_width road of Some w \<Rightarrow> w | None \<Rightarrow> float_lit (3 / 2))
                ratio)))]"
  by (auto simp: create_qgis_symbol_road_def hex_dark_gray layers_def new_element_def
      data_defined_properties_def simple_line_layer_def Let_def split: sum.splits)

lemma simple_line_layer_pass: "attr_get (simple_line_layer p props) ''pass'' = Some p"
  by (simp add: simple_line_layer_def new_element_def attr_get_def)

lemma simple_line_layer_color:
  "layer_option (simple_line_layer p (line_props cap jn col w)) ''line_color'' = Some col"
  by (simp add: layer_option_def simple_line_layer_def line_props_def new_element_def
      option_elem_def attr_get_def data_defined_properties_def)

lemma simple_line_layer_width:
  "layer_option (simple_line_layer p (line_props cap jn col w)) ''line_width'' = Some w"
  by (simp add: layer_option_def simple_line_layer_def line_props_def new_element_def
      option_elem_def attr_get_def data_defined_properties_def)

lemma example_road_symbol:
  "create_qgis_symbol_road
     \<lparr>tag = ''highway'', highway_value = ''motorway'', color = ''#ffffff'',
      symbol_name = ''Road Motorway'', stroke_width = Some (Finite 2)\<rparr>
     main_width_ratio_default =
   Inr (new_element ''symbol''
          [(''type'', ''line''), (''frame_rate'', ''10''), (''tags'', ''OSMAnd''),
           (''clip_to_extent'', ''1''), (''is_animated'', ''0''), (''force_rhr'', ''0''),
           (''name'', ''Road Motorway''), (''alpha'', ''1'')]
          [data_defined_properties,
           simple_line_layer ''0''
             (line_props ''square'' ''bevel''
                ''86,86,86,255,rgb:0.3372549020,0.3372549020,0.3372549020,1'' ''2.0''),
           simple_line_layer ''1''
             (line_props ''round'' ''round''
                ''255,255,255,255,rgb:1.0000000000,1.0000000000,1.0000000000,1''
                ''1.60000'')])"
  by (simp add: create_qgis_symbol_road_def hex_dark_gray hex_white float_str_2 fmul_2_ratio
      fmt_f_2_ratio)

text \<open>
  C5. A point symbol has exactly two layers, the shield layer (whose \<^verbatim>\<open>name\<close> option is
  the encoded shield file) before the icon layer (whose \<^verbatim>\<open>name\<close> option is the encoded
  icon file), both with pass 0. A road symbol, whenever one is generated, has exactly two
  layers: the stroke layer (dark-gray line colour) with pass 0, then the fill layer (the
  road's own colour) with pass 1.
\<close>

theorem symbol_layers:
  "layers (create_qgis_symbol_point v icon_base64 shield_base64) =
     [svg_marker_layer (shield_options shield_base64),
      svg_marker_layer (icon_options icon_base64)] \<and>
   map (\<lambda>l. attr_get l ''pass'')
     (layers (create_qgis_symbol_point v icon_base64 shield_base64)) =
     [Some ''0'', Some ''0''] \<and>
   map (\<lambda>l. layer_option l ''name'')
     (layers (create_qgis_symbol_point v icon_base64 shield_base64)) =
     [Some shield_base64, Some icon_base64] \<and>
   (create_qgis_symbol_road road ratio = Inr symb \<longrightarrow>
      length (layers symb) = 2 \<and>
      map (\<lambda>l. attr_get l ''pass'') (layers symb) = [Some ''0'', Some ''1''] \<and>
      map (\<lambda>l. map_option Inr (layer_option l ''line_color'')) (layers symb) =
        [Some (hex_to_rgb ''#565656''), Some (hex_to_rgb (color road))])"
proof (intro conjI impI)
  show "layers (create_qgis_symbol_point v icon_base64 shield_base64) =
     [svg_marker_layer (shield_options shield_base64),
      svg_marker_layer (icon_options icon_base64)]"
    by (rule layers_point)
  show "map (\<lambda>l. attr_get l ''pass'')
     (layers (create_qgis_symbol_point v icon_base64 shield_base64)) =
     [Some ''0'', Some ''0'']"
    by (simp add: layers_point svg_marker_layer_pass)
  show "map (\<lambda>l. layer_option l ''name'')
     (layers (create_qgis_symbol_point v icon_base64 shield_base64)) =
     [Some shield_base64, Some icon_base64]"
    by (simp add: layers_point shield_layer_name icon_layer_name)
next
  assume "create_qgis_symbol_road road ratio = Inr symb"
  then obtain main_color where
    c: "hex_to_rgb (color road) = Inr main_color" and
    l: "layers symb =
       [simple_line_layer ''0''
          (line_props ''square'' ''bevel''
             ''86,86,86,255,rgb:0.3372549020,0.3372549020,0.3372549020,1''
             (float_str (case stroke_width road of Some w \<Rightarrow> w | None \<Rightarrow> float_lit (3 / 2)))),
        simple_line_layer ''1''
          (line_props ''round'' ''round'' main_color
             (fmt_f 5 (fmul (case stroke_width road of Some w \<Rightarrow> w | None \<Rightarrow> float_lit (3 / 2))
                ratio)))]"
    using create_qgis_symbol_road_Inr by blast
  show "length (layers symb) = 2"
    by (simp add: l)
  show "map (\<lambda>l. attr_get l ''pass'') (layers symb) = [Some ''0'', Some ''1'']"
    by (simp add: l simple_line_layer_pass)
  show "map (\<lambda>l. map_option Inr (layer_option l ''line_color'')) (layers symb) =
        [Some (hex_to_rgb ''#565656''), Some (hex_to_rgb (color road))]"
    by (simp add: l c simple_line_layer_color hex_dark_gray)
qed

theorem symbol_layers_witness:
  "map (\<lambda>l. layer_option l ''name'')
     (layers (create_qgis_symbol_point ''amenity:bench'' ''base64:aWNvbg=='' ''base64:c2hpZWxk'')) =
     [Some ''base64:c2hpZWxk'', Some ''base64:aWNvbg==''] \<and>
   create_qgis_symbol_road
     \<lparr>tag = ''highway'', highway_value = ''motorway'', color = ''#ffffff'',
      symbol_name = ''Road Motorway'', stroke_width = Some (Finite 2)\<rparr>
     main_width_ratio_default =
   Inr (new_element ''symbol''
          [(''type'', ''line''), (''frame_rate'', ''10''), (''tags'', ''OSMAnd''),
           (''clip_to_extent'', ''1''), (''is_animated'', ''0''), (''force_rhr'', ''0''),
           (''name'', ''Road Motorway''), (''alpha'', ''1'')]
          [data_defined_properties,
           simple_line_layer ''0''
             (line_props ''square'' ''bevel''
                ''86,86,86,255,rgb:0.3372549020,0.3372549020,0.3372549020,1'' ''2.0''),
           simple_line_layer ''1''
             (line_props ''round'' ''round''
                ''255,255,255,255,rgb:1.0000000000,1.0000000000,1.0000000000,1''
                ''1.60000'')]) \<and>
   map (\<lambda>l. attr_get l ''pass'')
     (layers (new_element ''symbol''
          [(''type'', ''line''), (''frame_rate'', ''10''), (''tags'', ''OSMAnd''),
           (''clip_to_extent'', ''1''), (''is_animated'', ''0''), (''force_rhr'', ''0''),
           (''name'', ''Road Motorway''), (''alpha'', ''1'')]
          [data_defined_properties,
           simple_line_layer ''0''
             (line_props ''square'' ''bevel''
                ''86,86,86,255,rgb:0.3372549020,0.3372549020,0.3372549020,1'' ''2.0''),
           simple_line_layer ''1''
             (line_props ''round'' ''round''
                ''255,255,255,255,rgb:1.0000000000,1.0000000000,1.0000000000,1''
                ''1.60000'')])) = [Some ''0'', Some ''1'']"
  using symbol_layers
    [of "''amenity:bench''" "''base64:aWNvbg==''" "''base64:c2hpZWxk''"
        "\<lparr>tag = ''highway'', highway_value = ''motorway'', color = ''#ffffff'',
          symbol_name = ''Road Motorway'', stroke_width = Some (Finite 2)\<rparr>"
        main_width_ratio_default
        "new_element ''symbol''
          [(''type'', ''line''), (''frame_rate'', ''10''), (''tags'', ''OSMAnd''),
           (''clip_to_extent'', ''1''), (''is_animated'', ''0''), (''force_rhr'', ''0''),
           (''name'', ''Road Motorway''), (''alpha'', ''1'')]
          [data_defined_properties,
           simple_line_layer ''0''
             (line_props ''square'' ''bevel''
                ''86,86,86,255,rgb:0.3372549020,0.3372549020,0.3372549020,1'' ''2.0''),
           simple_line_layer ''1''
             (line_props ''round'' ''round''
                ''255,255,255,255,rgb:1.0000000000,1.0000000000,1.0000000000,1''
                ''1.60000'')]"]
    example_road_symbol
  by (simp add: shield_layer_name icon_layer_name svg_marker_layer_pass
      simple_line_layer_pass simple_line_layer_color)

lemma create_qgis_symbol_road_total:
  assumes "hex_to_rgb (color road) = Inr main_color"
  shows "create_qgis_symbol_road road ratio =
     Inr (new_element ''symbol''
            [(''type'', ''line''), (''frame_rate'', ''10''), (''tags'', ''OSMAnd''),
             (''clip_to_extent'', ''1''), (''is_animated'', ''0''), (''force_rhr'', ''0''),
             (''name'', symbol_name road), (''alpha'', ''1'')]
            [data_defined_properties,
             simple_line_layer ''0''
               (line_props ''square'' ''bevel''
                  ''86,86,86,255,rgb:0.3372549020,0.3372549020,0.3372549020,1''
                  (float_str (case stroke_width road of Some w \<Rightarrow> w
                              | None \<Rightarrow> float_lit (3 / 2)))),
             simple_line_layer ''1''
               (line_props ''round'' ''round'' main_color
                  (fmt_f 5 (fmul (case stroke_width road of Some w \<Rightarrow> w
                                  | None \<Rightarrow> float_lit (3 / 2)) ratio)))])"
  using assms by (simp add: create_qgis_symbol_road_def hex_dark_gray Let_def)

text \<open>
  C2. For every road whose resolved colour converts (\<^verbatim>\<open>hex_to_rgb\<close> returns a string for
  it) and whose stroke width is \<open>W\<close>, \<^verbatim>\<open>create_qgis_symbol\<close> with the default ratio
  returns a symbol. Its stroke layer (the first one) has \<^verbatim>\<open>line_width\<close> \<^verbatim>\<open>str(W)\<close>, the
  width unmodified, and the dark-gray line colour of \<^verbatim>\<open>#565656\<close>; its fill layer (the
  second one) has \<^verbatim>\<open>line_width\<close> the float product \<open>W * 0.8\<close> in the format \<^verbatim>\<open>.5f\<close>.
\<close>

theorem road_layer_widths:
  "hex_to_rgb (color road) = Inr main_color \<and> stroke_width road = Some W \<longrightarrow>
     (\<exists>symb. create_qgis_symbol_road road main_width_ratio_default = Inr symb \<and>
        map (\<lambda>l. layer_option l ''line_width'') (layers symb) =
          [Some (float_str W), Some (fmt_f 5 (fmul W (float_lit (4 / 5))))] \<and>
        map (\<lambda>l. layer_option l ''line_color'') (layers symb) =
          [Some ''86,86,86,255,rgb:0.3372549020,0.3372549020,0.3372549020,1'',
           Some main_color]) \<and>
     hex_to_rgb ''#565656'' =
       Inr ''86,86,86,255,rgb:0.3372549020,0.3372549020,0.3372549020,1''"
proof (intro impI conjI)
  assume h: "hex_to_rgb (color road) = Inr main_color \<and> stroke_width road = Some W"
  then have c: "hex_to_rgb (color road) = Inr main_color" and w: "stroke_width road = Some W"
    by simp_all
  show "\<exists>symb. create_qgis_symbol_road road main_width_ratio_default = Inr symb \<and>
        map (\<lambda>l. layer_option l ''line_width'') (layers symb) =
          [Some (float_str W), Some (fmt_f 5 (fmul W (float_lit (4 / 5))))] \<and>
        map (\<lambda>l. layer_option l ''line_color'') (layers symb) =
          [Some ''86,86,86,255,rgb:0.3372549020,0.3372549020,0.3372549020,1'',
           Some main_color]"
  proof -
    from create_qgis_symbol_road_total [OF c, of main_width_ratio_default]
    obtain symb where s: "create_qgis_symbol_road road main_width_ratio_default = Inr symb"
      by blast
    from create_qgis_symbol_road_Inr [OF s] obtain mc where
      m: "hex_to_rgb (color road) = Inr mc" and
      l0: "layers symb =
       [simple_line_layer ''0''
          (line_props ''square'' ''bevel''
             ''86,86,86,255,rgb:0.3372549020,0.3372549020,0.3372549020,1''
             (float_str (case stroke_width road of Some w \<Rightarrow> w | None \<Rightarrow> float_lit (3 / 2)))),
        simple_line_layer ''1''
          (line_props ''round'' ''round'' mc
             (fmt_f 5 (fmul (case stroke_width road of Some w \<Rightarrow> w | None \<Rightarrow> float_lit (3 / 2))
                main_width_ratio_default)))]"
      by (elim exE conjE)
    from m c have mc: "mc = main_color"
      by simp
    have l: "layers symb =
       [simple_line_layer ''0''
          (line_props ''square'' ''bevel''
             ''86,86,86,255,rgb:0.3372549020,0.3372549020,0.3372549020,1'' (float_str W)),
        simple_line_layer ''1''
          (line_props ''round'' ''round'' main_color
             (fmt_f 5 (fmul W main_width_ratio_default)))]"
      unfolding l0 mc w by simp
    have "map (\<lambda>l. layer_option l ''line_width'') (layers symb) =
          [Some (float_str W), Some (fmt_f 5 (fmul W (float_lit (4 / 5))))] \<and>
        map (\<lambda>l. layer_option l ''line_color'') (layers symb) =
          [Some ''86,86,86,255,rgb:0.3372549020,0.3372549020,0.3372549020,1'',
           Some main_color]"
      unfolding l
      by (simp add: simple_line_layer_width simple_line_layer_color
          main_width_ratio_default_def)
    then show ?thesis
      using s by (intro exI [of _ symb] conjI) simp_all
  qed
next
  show "hex_to_rgb ''#565656'' =
       Inr ''86,86,86,255,rgb:0.3372549020,0.3372549020,0.3372549020,1''"
    by (rule hex_dark_gray)
qed

theorem road_layer_widths_witness:
  "hex_to_rgb ''#ffffff'' =
     Inr ''255,255,255,255,rgb:1.0000000000,1.0000000000,1.0000000000,1'' \<and>
   create_qgis_symbol_road
     \<lparr>tag = ''highway'', highway_value = ''motorway'', color = ''#ffffff'',
      symbol_name = ''Road Motorway'', stroke_width = Some (Finite 2)\<rparr>
     main_width_ratio_default =
   Inr (new_element ''symbol''
          [(''type'', ''line''), (''frame_rate'', ''10''), (''tags'', ''OSMAnd''),
           (''clip_to_extent'', ''1''), (''is_animated'', ''0''), (''force_rhr'', ''0''),
           (''name'', ''Road Motorway''), (''alpha'', ''1'')]
          [data_defined_properties,
           simple_line_layer ''0''
             (line_props ''square'' ''bevel''
                ''86,86,86,255,rgb:0.3372549020,0.3372549020,0.3372549020,1'' ''2.0''),
           simple_line_layer ''1''
             (line_props ''round'' ''round''
                ''255,255,255,255,rgb:1.0000000000,1.0000000000,1.0000000000,1''
                ''1.60000'')]) \<and>
   map (\<lambda>l. layer_option l ''line_width'')
     (layers (new_element ''symbol''
          [(''type'', ''line''), (''frame_rate'', ''10''), (''tags'', ''OSMAnd''),
           (''clip_to_extent'', ''1''), (''is_animated'', ''0''), (''force_rhr'', ''0''),
           (''name'', ''Road Motorway''), (''alpha'', ''1'')]
          [data_defined_properties,
           simple_line_layer ''0''
             (line_props ''square'' ''bevel''
                ''86,86,86,255,rgb:0.3372549020,0.3372549020,0.3372549020,1'' ''2.0''),
           simple_line_layer ''1''
             (line_props ''round'' ''round''
                ''255,255,255,255,rgb:1.0000000000,1.0000000000,1.0000000000,1''
                ''1.60000'')])) = [Some ''2.0'', Some ''1.60000'']"
  using road_layer_widths
    [of "\<lparr>tag = ''highway'', highway_value = ''motorway'', color = ''#ffffff'',
          symbol_name = ''Road Motorway'', stroke_width = Some (Finite 2)\<rparr>"
        "''255,255,255,255,rgb:1.0000000000,1.0000000000,1.0000000000,1''"
        "Finite 2"]
    example_road_symbol hex_white
  by (simp add: float_str_2 fmul_2_ratio fmt_f_2_ratio simple_line_layer_width
      simple_line_layer_color main_width_ratio_default_def [symmetric])

subsection \<open>The point rules\<close>

lemma map_fst_descendant_refs: "map fst (descendant_refs up n) = descendants n"
  by (induction up n rule: descendant_refs.induct) (simp_all add: map_concat comp_def cong: map_cong)

lemma strip_eq_Nil: "strip s = [] \<longleftrightarrow> (\<forall>c\<in>set s. py_isspace c)"
proof
  assume "strip s = []"
  then have "\<forall>x\<in>set (dropWhile py_isspace s). py_isspace x"
    by (simp add: strip_def dropWhile_eq_Nil_conv)
  then have "dropWhile py_isspace s = []"
    by (metis hd_dropWhile hd_in_set)
  then show "\<forall>c\<in>set s. py_isspace c"
    by (simp add: dropWhile_eq_Nil_conv)
next
  assume "\<forall>c\<in>set s. py_isspace c"
  then show "strip s = []"
    by (auto simp: strip_def dest: set_dropWhileD)
qed

lemma stripped_attr_nonblank: "stripped_attr c k \<noteq> [] \<longleftrightarrow> nonblank_attr c k"
  by (auto simp: stripped_attr_def nonblank_attr_def strip_eq_Nil list_ex_iff split: option.splits)

lemma is_point_rule_iff: "is_point_rule c \<longleftrightarrow> carries_tag_value_icon c"
  using stripped_attr_nonblank [of c] by (auto simp: is_point_rule_def carries_tag_value_icon_def)

lemma nonblank_has_attr: "nonblank_attr c k \<Longrightarrow> has_attr k c"
  by (simp add: nonblank_attr_def has_attr_def split: option.splits)

text \<open>
  C1 (as amended). The cases that the loop of \<^verbatim>\<open>main\<close> works on are exactly the
  descendant \<^verbatim>\<open>case\<close> elements of the root whose \<^verbatim>\<open>tag\<close>, \<^verbatim>\<open>value\<close> and \<^verbatim>\<open>icon\<close>
  attributes are present and hold more than whitespace, in document order. An element
  with another tag name is never selected.
\<close>

theorem point_rules_are_case_elements:
  "map fst (point_rules doc_root) =
     filter (\<lambda>n. ntag n = Some ''case'' \<and> carries_tag_value_icon n) (descendants doc_root)"
proof -
  have "map fst (point_rules doc_root) =
      filter (\<lambda>n. ntag n = Some ''case'' \<and> has_attr ''tag'' n \<and> has_attr ''value'' n \<and>
                  has_attr ''icon'' n \<and> is_point_rule n)
        (map fst (descendant_refs [] doc_root))"
    by (simp add: point_rules_def findall_point_cases_def filter_map comp_def)
  also have "\<dots> = filter (\<lambda>n. ntag n = Some ''case'' \<and> carries_tag_value_icon n)
        (descendants doc_root)"
    unfolding map_fst_descendant_refs
    by (rule filter_cong)
      (auto simp: is_point_rule_iff carries_tag_value_icon_def nonblank_has_attr)
  finally show ?thesis .
qed

lemma process_case_not_rule:
  "\<not> is_point_rule (fst c) \<Longrightarrow> process_case q fs st c = st"
  by (auto simp: process_case_def is_point_rule_def)

lemma points_loop_point_rules:
  "foldl (process_case q fs) st cases =
   foldl (process_case q fs) st (filter (\<lambda>r. is_point_rule (fst r)) cases)"
  by (induction cases arbitrary: st) (simp_all add: process_case_not_rule)

text \<open>
  C1 as stated speaks of all descendant nodes. A \<^verbatim>\<open>switch\<close> element that carries the
  three attributes is such a node, and the extractor does not yield it.
\<close>

theorem point_rules_not_all_nodes:
  "map fst (point_rules
      (Element ''renderingStyle'' [] []
         [Element ''switch'' [(''tag'', ''amenity''), (''value'', ''bench''), (''icon'', ''bench'')]
            [] [] []] [])) \<noteq>
   filter carries_tag_value_icon
     (descendants
        (Element ''renderingStyle'' [] []
           [Element ''switch'' [(''tag'', ''amenity''), (''value'', ''bench''), (''icon'', ''bench'')]
              [] [] []] []))"
  by code_simp

subsection \<open>Duplicate names in the point loop\<close>

lemma first_by_key_set:
  "set seen = set seen' \<Longrightarrow> first_by_key key seen xs = first_by_key key seen' xs"
proof (induction xs arbitrary: seen seen')
  case Nil
  show ?case by simp
next
  case (Cons x xs)
  have "set (key x # seen) = set (key x # seen')"
    using Cons.prems by simp
  then have "first_by_key key (key x # seen) xs = first_by_key key (key x # seen') xs"
    by (rule Cons.IH)
  moreover have "key x \<in> set seen \<longleftrightarrow> key x \<in> set seen'"
    using Cons.prems by simp
  moreover have "first_by_key key seen xs = first_by_key key seen' xs"
    using Cons.prems by (rule Cons.IH)
  ultimately show ?case by simp
qed

lemma first_by_key_keys:
  "set (map key (first_by_key key seen xs)) \<inter> set seen = {}"
proof (induction xs arbitrary: seen)
  case Nil
  then show ?case by simp
next
  case (Cons x xs)
  have "set (map key (first_by_key key (key x # seen) xs)) \<inter> set (key x # seen) = {}"
    by (rule Cons.IH)
  with Cons.IH [of seen] show ?case by auto
qed

lemma first_by_key_distinct: "distinct (map key (first_by_key key seen xs))"
proof (induction xs arbitrary: seen)
  case Nil
  then show ?case by simp
next
  case (Cons x xs)
  have "set (map key (first_by_key key (key x # seen) xs)) \<inter> set (key x # seen) = {}"
    by (rule first_by_key_keys)
  with Cons.IH show ?case by auto
qed

lemma point_symbol_tag: "ntag (create_qgis_symbol_point v i sh) = Some ''symbol''"
  by (simp add: create_qgis_symbol_point_def new_element_def)

lemma point_symbol_name: "name_of (create_qgis_symbol_point v i sh) = Some v"
  by (simp add: name_of_def create_qgis_symbol_point_def new_element_def attr_get_def)

lemma find_descendants_Element:
  "find_descendants (Element t a x cs tail) name =
     concat (map (\<lambda>c. if ntag c = Some name then c # find_descendants c name
                      else find_descendants c name) cs)"
  by (simp add: find_descendants_def filter_concat comp_def cong: if_cong)

lemma point_symbol_no_inner_symbol:
  "filter (\<lambda>d. ntag d = Some ''symbol'') (descendants (create_qgis_symbol_point v i sh)) = []"
  by (simp add: create_qgis_symbol_point_def new_element_def data_defined_properties_def
      svg_marker_layer_def option_elem_def shield_options_def icon_options_def)

lemma find_descendants_create_point:
  "find_descendants (create_qgis_symbol_point v i sh) ''symbol'' = []"
  unfolding find_descendants_def by (rule point_symbol_no_inner_symbol)

lemma find_descendants_point_symbol:
  assumes "is_point_symbol s"
  shows "find_descendants s ''symbol'' = []"
proof -
  from assms obtain v i sh where "s = create_qgis_symbol_point v i sh"
    unfolding is_point_symbol_def by blast
  then show ?thesis
    by (simp only: find_descendants_create_point)
qed

lemma concat_singletons: "concat (map (\<lambda>c. [c]) xs) = xs"
  by (induction xs) simp_all

lemma find_symbols_in_container:
  assumes "\<forall>s\<in>set syms. is_point_symbol s"
  shows "find_descendants (new_element ''symbols'' [] syms) ''symbol'' = syms"
proof -
  have "map (\<lambda>c. if ntag c = Some ''symbol'' then c # find_descendants c ''symbol''
                 else find_descendants c ''symbol'') syms = map (\<lambda>c. [c]) syms"
  proof (rule map_cong [OF refl])
    fix c assume "c \<in> set syms"
    with assms have p: "is_point_symbol c" by simp
    then have "ntag c = Some ''symbol''"
      by (auto simp: is_point_symbol_def point_symbol_tag)
    with p show "(if ntag c = Some ''symbol'' then c # find_descendants c ''symbol''
                 else find_descendants c ''symbol'') = [c]"
      by (simp add: find_descendants_point_symbol)
  qed
  then have "concat (map (\<lambda>c. if ntag c = Some ''symbol'' then c # find_descendants c ''symbol''
                 else find_descendants c ''symbol'') syms) = concat (map (\<lambda>c. [c]) syms)"
    by (rule arg_cong [where f = concat])
  also have "\<dots> = syms"
    by (rule concat_singletons)
  finally have "find_descendants (Element ''symbols'' [] [] syms []) ''symbol'' = syms"
    by (subst find_descendants_Element)
  then show ?thesis
    by (simp only: new_element_def)
qed

lemma symbols_named_container:
  "\<forall>s\<in>set syms. is_point_symbol s \<Longrightarrow>
   symbols_named (new_element ''symbols'' [] syms) n = filter (\<lambda>s. name_of s = Some n) syms"
  by (simp add: symbols_named_def find_symbols_in_container name_of_def)

lemma candidate_symbol_name:
  "candidate_symbol fs c = Some s \<Longrightarrow>
   name_of s = Some (case_symbol_name (fst c)) \<and> is_point_symbol s"
  by (auto simp: candidate_symbol_def Let_def case_symbol_name_def point_symbol_name
      is_point_symbol_def split: if_splits option.splits)

lemma filter_name_Nil:
  "filter (\<lambda>s. name_of s = Some n) syms = [] \<longleftrightarrow> Some n \<notin> set (map name_of syms)"
  by (force simp: filter_empty_conv image_iff)

lemma process_case_symbols_query:
  "symbols (process_case q fs st c) =
     (if is_point_rule (fst c) \<and>
         q (new_element ''symbols'' [] (symbols st)) (case_symbol_name (fst c)) = []
      then (case candidate_symbol fs c of None \<Rightarrow> symbols st | Some s \<Rightarrow> symbols st @ [s])
      else symbols st)"
  by (simp add: process_case_def candidate_symbol_def Let_def is_point_rule_def
      case_symbol_name_def split: option.splits)

lemma process_case_symbols:
  assumes safe: "interpolation_safe q"
    and inv: "\<forall>s\<in>set (symbols st). is_point_symbol s"
    and ok: "apostrophe \<notin> set (case_symbol_name (fst c))"
  shows "symbols (process_case q fs st c) =
     symbols st @
     (case candidate_symbol fs c of
        None \<Rightarrow> []
      | Some s \<Rightarrow> if name_of s \<in> set (map name_of (symbols st)) then [] else [s])"
proof -
  let ?n = "case_symbol_name (fst c)"
  have q: "q (new_element ''symbols'' [] (symbols st)) ?n =
      filter (\<lambda>s. name_of s = Some ?n) (symbols st)"
    using safe ok inv by (simp add: interpolation_safe_def symbols_named_container)
  have e: "q (new_element ''symbols'' [] (symbols st)) ?n = [] \<longleftrightarrow>
      Some ?n \<notin> set (map name_of (symbols st))"
    unfolding q by (rule filter_name_Nil)
  show ?thesis
  proof (cases "candidate_symbol fs c")
    case None
    then show ?thesis by (simp add: process_case_symbols_query)
  next
    case (Some s)
    then have n: "name_of s = Some ?n"
      using candidate_symbol_name by blast
    have r: "is_point_rule (fst c)"
      using Some by (auto simp: candidate_symbol_def is_point_rule_def Let_def split: if_splits)
    from Some n r e show ?thesis
      by (simp add: process_case_symbols_query)
  qed
qed

lemma process_case_inv:
  "\<forall>s\<in>set (symbols st). is_point_symbol s \<Longrightarrow>
   \<forall>s\<in>set (symbols (process_case q fs st c)). is_point_symbol s"
  using candidate_symbol_name [of fs c]
  by (auto simp: process_case_symbols_query split: option.splits)

lemma points_loop_symbols:
  assumes safe: "interpolation_safe q"
  shows "\<forall>s\<in>set (symbols st). is_point_symbol s \<Longrightarrow>
     \<forall>c\<in>set cases. apostrophe \<notin> set (case_symbol_name (fst c)) \<Longrightarrow>
     symbols (foldl (process_case q fs) st cases) =
       symbols st @
       first_by_key name_of (map name_of (symbols st))
         (List.map_filter (candidate_symbol fs) cases)"
proof (induction cases arbitrary: st)
  case Nil
  then show ?case by (simp add: List.map_filter_simps)
next
  case (Cons c cases)
  let ?st = "process_case q fs st c"
  have inv: "\<forall>s\<in>set (symbols ?st). is_point_symbol s"
    using Cons.prems(1) by (rule process_case_inv)
  have step: "symbols ?st = symbols st @
     (case candidate_symbol fs c of
        None \<Rightarrow> []
      | Some s \<Rightarrow> if name_of s \<in> set (map name_of (symbols st)) then [] else [s])"
    using safe Cons.prems by (simp add: process_case_symbols)
  have ih: "symbols (foldl (process_case q fs) ?st cases) =
       symbols ?st @
       first_by_key name_of (map name_of (symbols ?st))
         (List.map_filter (candidate_symbol fs) cases)"
    using Cons.IH [OF inv] Cons.prems(2) by simp
  show ?case
  proof (cases "candidate_symbol fs c")
    case None
    with step ih show ?thesis by (simp add: List.map_filter_simps)
  next
    case (Some s)
    show ?thesis
    proof (cases "name_of s \<in> set (map name_of (symbols st))")
      case True
      with Some step ih show ?thesis by (simp add: List.map_filter_simps)
    next
      case False
      have "first_by_key name_of (map name_of (symbols st @ [s]))
              (List.map_filter (candidate_symbol fs) cases) =
            first_by_key name_of (name_of s # map name_of (symbols st))
              (List.map_filter (candidate_symbol fs) cases)"
        by (rule first_by_key_set) auto
      with False Some step ih show ?thesis by (simp add: List.map_filter_simps)
    qed
  qed
qed

subsection \<open>Duplicate values in the road loop\<close>

lemma first_by_key_append:
  "first_by_key key seen (xs @ ys) =
   first_by_key key seen xs @
   first_by_key key (map key (first_by_key key seen xs) @ seen) ys"
proof (induction xs arbitrary: seen)
  case Nil
  show ?case by simp
next
  case (Cons x xs)
  show ?case
  proof (cases "key x \<in> set seen")
    case True
    then show ?thesis by (simp add: Cons.IH)
  next
    case False
    have "first_by_key key (map key (first_by_key key (key x # seen) xs) @ key x # seen) ys =
          first_by_key key (key x # map key (first_by_key key (key x # seen) xs) @ seen) ys"
      by (rule first_by_key_set) auto
    with False show ?thesis by (simp add: Cons.IH)
  qed
qed

lemma first_by_key_distinct_keys:
  "distinct (map key xs) \<Longrightarrow> first_by_key key seen xs = filter (\<lambda>x. key x \<notin> set seen) xs"
proof (induction xs arbitrary: seen)
  case Nil
  show ?case by simp
next
  case (Cons x xs)
  have d: "distinct (map key xs)" and n: "key x \<notin> set (map key xs)"
    using Cons.prems by simp_all
  have "first_by_key key (key x # seen) xs = filter (\<lambda>y. key y \<notin> set (key x # seen)) xs"
    using d by (rule Cons.IH)
  also have "\<dots> = filter (\<lambda>y. key y \<notin> set seen) xs"
  proof (rule filter_cong [OF refl])
    fix y assume "y \<in> set xs"
    then have "key y \<in> set (map key xs)" by simp
    with n have "key y \<noteq> key x" by metis
    then show "(key y \<notin> set (key x # seen)) = (key y \<notin> set seen)" by simp
  qed
  finally show ?case
    using Cons.IH [OF d, of seen] by simp
qed

lemma map_fst_first_by_key:
  "map fst (map (\<lambda>(v, col). (v, f col)) xs) = map fst xs"
  by (induction xs) auto

lemma road_loop_result:
  "road_loop title defs processed roads cs = Inr (processed', roads') \<Longrightarrow>
   map (\<lambda>r. (highway_value r, color r)) roads' =
     map (\<lambda>r. (highway_value r, color r)) roads @
     map (\<lambda>(v, col). (v, resolve_color_variable col defs))
       (first_by_key fst processed
          (map (\<lambda>c. (attr_or_empty c ''value'', attr_or_empty c ''color''))
             (filter eligible_case cs))) \<and>
   map symbol_name roads' =
     map symbol_name roads @
     map (\<lambda>(v, col). road_symbol_name title v)
       (first_by_key fst processed
          (map (\<lambda>c. (attr_or_empty c ''value'', attr_or_empty c ''color''))
             (filter eligible_case cs))) \<and>
   set processed' =
     set processed \<union>
     fst ` set (first_by_key fst processed
          (map (\<lambda>c. (attr_or_empty c ''value'', attr_or_empty c ''color''))
             (filter eligible_case cs)))"
proof (induction cs arbitrary: processed roads)
  case Nil
  then show ?case by simp
next
  case (Cons c cs)
  show ?case
  proof (cases "eligible_case c \<and> attr_or_empty c ''value'' \<notin> set processed")
    case False
    with Cons.prems have "road_loop title defs processed roads cs = Inr (processed', roads')"
      by simp
    from Cons.IH [OF this] False show ?thesis by auto
  next
    case True
    then obtain w where w: "extract_stroke_width_for_zoom c 16 = Inr w"
      using Cons.prems by (auto split: sum.splits)
    let ?r = "\<lparr>tag = ''highway'', highway_value = attr_or_empty c ''value'',
                color = resolve_color_variable (attr_or_empty c ''color'') defs,
                symbol_name = road_symbol_name title (attr_or_empty c ''value''),
                stroke_width = Some w\<rparr>"
    have "road_loop title defs (attr_or_empty c ''value'' # processed) (roads @ [?r]) cs =
        Inr (processed', roads')"
      using Cons.prems True w by simp
    from Cons.IH [OF this] True show ?thesis by auto
  qed
qed

lemma additional_values_distinct:
  "distinct (map fst (map (\<lambda>info. (fst info, fst (snd info))) additional_roads))"
  by (simp add: additional_roads_def)

lemma extract_road_info_result:
  assumes "extract_road_info title doc_root defs = Inr roads"
  shows "map (\<lambda>r. (highway_value r, color r)) roads =
       map (\<lambda>(v, col). (v, resolve_color_variable col defs))
         (first_by_key fst [] (road_candidates doc_root)) \<and>
     map symbol_name roads =
       map (\<lambda>(v, col). road_symbol_name title v) (first_by_key fst [] (road_candidates doc_root))"
proof -
  from assms obtain line_section rest where
    l: "find_descendants doc_root ''line'' = line_section # rest"
    by (auto simp: extract_road_info_def split: list.splits)
  let ?cs = "concat (map highway_cases (high_zoom_switches line_section))"
  let ?doc = "map (\<lambda>c. (attr_or_empty c ''value'', attr_or_empty c ''color''))
                (filter eligible_case ?cs)"
  let ?add = "map (\<lambda>info. (fst info, fst (snd info))) additional_roads"
  from assms l obtain processed droads where
    loop: "road_loop title defs [] [] ?cs = Inr (processed, droads)" and
    roads: "roads = droads @ map (additional_road title defs)
        (filter (\<lambda>info. fst info \<notin> set processed) additional_roads)"
    by (auto simp: extract_road_info_def split: sum.splits)
  from road_loop_result [OF loop] have
    d1: "map (\<lambda>r. (highway_value r, color r)) droads =
       map (\<lambda>(v, col). (v, resolve_color_variable col defs)) (first_by_key fst [] ?doc)" and
    d2: "map symbol_name droads =
       map (\<lambda>(v, col). road_symbol_name title v) (first_by_key fst [] ?doc)" and
    p: "set processed = fst ` set (first_by_key fst [] ?doc)"
    by simp_all
  have "first_by_key fst (map fst (first_by_key fst [] ?doc) @ []) ?add =
        filter (\<lambda>x. fst x \<notin> set (map fst (first_by_key fst [] ?doc) @ [])) ?add"
    using additional_values_distinct by (rule first_by_key_distinct_keys)
  then have a: "first_by_key fst (map fst (first_by_key fst [] ?doc) @ []) ?add =
        map (\<lambda>info. (fst info, fst (snd info)))
          (filter (\<lambda>info. fst info \<notin> set processed) additional_roads)"
    by (simp add: p filter_map comp_def)
  have c: "road_candidates doc_root = ?doc @ ?add"
    by (simp add: road_candidates_def l)
  have f: "first_by_key fst [] (road_candidates doc_root) =
      first_by_key fst [] ?doc @
      map (\<lambda>info. (fst info, fst (snd info)))
        (filter (\<lambda>info. fst info \<notin> set processed) additional_roads)"
    unfolding c first_by_key_append a ..
  show ?thesis
    unfolding f roads
    by (simp add: d1 d2 additional_road_def comp_def)
qed

lemma extract_road_info_distinct:
  assumes "extract_road_info title doc_root defs = Inr roads"
  shows "distinct (map highway_value roads)"
proof -
  from extract_road_info_result [OF assms] have
    e: "map (\<lambda>r. (highway_value r, color r)) roads =
       map (\<lambda>(v, col). (v, resolve_color_variable col defs))
         (first_by_key fst [] (road_candidates doc_root))"
    by (rule conjunct1)
  have "map highway_value roads = map fst (map (\<lambda>r. (highway_value r, color r)) roads)"
    by (simp add: comp_def)
  also have "\<dots> = map fst (map (\<lambda>(v, col). (v, resolve_color_variable col defs))
         (first_by_key fst [] (road_candidates doc_root)))"
    by (simp only: e)
  also have "\<dots> = map fst (first_by_key fst [] (road_candidates doc_root))"
    by (rule map_fst_first_by_key)
  finally have "map highway_value roads =
      map fst (first_by_key fst [] (road_candidates doc_root))" .
  then show ?thesis
    by (simp only: first_by_key_distinct)
qed

subsection \<open>Stroke width extraction\<close>

lemma startswith_iff: "startswith s p \<longleftrightarrow> (\<exists>post. s = p @ post)"
proof
  assume "startswith s p"
  then have "s = p @ drop (length p) s"
    by (metis append_take_drop_id startswith_def)
  then show "\<exists>post. s = p @ post" ..
next
  assume "\<exists>post. s = p @ post"
  then show "startswith s p"
    by (auto simp: startswith_def)
qed




















subsection \<open>The symbols of the road document\<close>

lemma road_symbol_name_of:
  "create_qgis_symbol_road road ratio = Inr symb \<Longrightarrow> name_of symb = Some (symbol_name road)"
  by (auto simp: create_qgis_symbol_road_def Let_def name_of_def attr_get_def new_element_def
      split: sum.splits)

lemma create_symbols_names:
  "create_symbols roads = Inr symbs \<Longrightarrow>
   map name_of symbs = map (\<lambda>r. Some (symbol_name r)) roads"
proof (induction roads arbitrary: symbs)
  case Nil
  then show ?case by simp
next
  case (Cons road roads)
  from Cons.prems obtain symb rest where
    s: "create_qgis_symbol_road road main_width_ratio_default = Inr symb" and
    r: "create_symbols roads = Inr rest" and
    e: "symbs = symb # rest"
    by (auto split: sum.splits)
  from Cons.IH [OF r] road_symbol_name_of [OF s] e show ?case by simp
qed

lemma create_symbols_total:
  "list_all (\<lambda>r. \<not> isl (hex_to_rgb (color r))) roads \<Longrightarrow> \<not> isl (create_symbols roads)"
proof (induction roads)
  case Nil
  then show ?case by simp
next
  case (Cons road roads)
  then obtain main_color where "hex_to_rgb (color road) = Inr main_color"
    by (cases "hex_to_rgb (color road)") auto
  from create_qgis_symbol_road_total [OF this, of main_width_ratio_default]
  obtain symb where "create_qgis_symbol_road road main_width_ratio_default = Inr symb"
    by blast
  moreover from Cons obtain rest where "create_symbols roads = Inr rest"
    by (cases "create_symbols roads") auto
  ultimately show ?case by simp
qed

lemma example_colors_convert:
  "isl (hex_to_rgb ''#ffffff'') = False \<and> isl (hex_to_rgb ''#000000'') = False \<and>
   isl (hex_to_rgb ''#fa8c16'') = False \<and> isl (hex_to_rgb ''#178fe5'') = False \<and>
   isl (hex_to_rgb ''#c76817'') = False \<and> isl (hex_to_rgb ''#cdcdcd'') = False"
  by code_simp

lemma example_roads:
  "map_sum id (map (\<lambda>r. (symbol_name r, color r)))
     (extract_road_info ascii_title example_roads_document
        (extract_color_definitions example_roads_document)) =
   Inr [(''Road Bus Guideway'', ''#ffffff''), (''Road Bus Guideway'', ''#ffffff''),
        (''Road Service'', ''#000000''), (''Road Pedestrian'', ''#000000''),
        (''Road Footway'', ''#fa8c16''), (''Road Cycleway'', ''#178fe5''),
        (''Road Path'', ''#fa8c16''), (''Road Bridleway'', ''#c76817''),
        (''Road Steps'', ''#fa8c16''), (''Road Living Street'', ''#000000''),
        (''Road Road'', ''#cdcdcd'')]"
  unfolding example_roads_document_def by code_simp

lemma example_road_symbols:
  "\<exists>symbs. road_symbols ascii_title example_roads_document = Inr symbs \<and>
     map name_of symbs =
       [Some ''Road Bus Guideway'', Some ''Road Bus Guideway'', Some ''Road Service'',
        Some ''Road Pedestrian'', Some ''Road Footway'', Some ''Road Cycleway'',
        Some ''Road Path'', Some ''Road Bridleway'', Some ''Road Steps'',
        Some ''Road Living Street'', Some ''Road Road'']"
proof -
  let ?L = "[(''Road Bus Guideway'', ''#ffffff''), (''Road Bus Guideway'', ''#ffffff''),
        (''Road Service'', ''#000000''), (''Road Pedestrian'', ''#000000''),
        (''Road Footway'', ''#fa8c16''), (''Road Cycleway'', ''#178fe5''),
        (''Road Path'', ''#fa8c16''), (''Road Bridleway'', ''#c76817''),
        (''Road Steps'', ''#fa8c16''), (''Road Living Street'', ''#000000''),
        (''Road Road'', ''#cdcdcd'')]"
  from example_roads obtain roads where
    r: "extract_road_info ascii_title example_roads_document
          (extract_color_definitions example_roads_document) = Inr roads" and
    m: "map (\<lambda>r. (symbol_name r, color r)) roads = ?L"
    by (cases "extract_road_info ascii_title example_roads_document
          (extract_color_definitions example_roads_document)") auto
  have "map color roads = map snd (map (\<lambda>r. (symbol_name r, color r)) roads)"
    by (simp add: comp_def)
  then have c: "map color roads = map snd ?L"
    by (simp only: m)
  have "list_all (\<lambda>c. \<not> isl (hex_to_rgb c)) (map color roads)"
    unfolding c using example_colors_convert by simp
  then have "list_all (\<lambda>r. \<not> isl (hex_to_rgb (color r))) roads"
    by (simp add: list_all_iff)
  then have "\<not> isl (create_symbols roads)"
    by (rule create_symbols_total)
  then obtain symbs where s: "create_symbols roads = Inr symbs"
    by (cases "create_symbols roads") auto
  have "map symbol_name roads = map fst (map (\<lambda>r. (symbol_name r, color r)) roads)"
    by (simp add: comp_def)
  then have n: "map symbol_name roads = map fst ?L"
    by (simp only: m)
  have "map name_of symbs = map Some (map symbol_name roads)"
    using create_symbols_names [OF s] by (simp add: comp_def)
  then have "map name_of symbs = map Some (map fst ?L)"
    by (simp only: n)
  moreover have "road_symbols ascii_title example_roads_document = Inr symbs"
    by (simp add: road_symbols_def r s)
  ultimately show ?thesis by simp
qed

lemma startswith_append: "startswith (p @ r) p"
  by (simp add: startswith_def)

lemma replace_prefix:
  "old \<noteq> [] \<Longrightarrow> replace old new (old @ r) = new @ replace old new r"
  by (subst replace.simps) (simp add: startswith_append)

lemma doctype_after_declaration:
  "doctype_after_prolog (xml_declaration @ [CHR 0x0A] @ doctype @ r)"
  by (simp add: doctype_after_prolog_def xml_declaration_def apostrophe_def startswith_def)

lemma doctype_first:
  "startswith (doctype @ r) doctype \<and> \<not> doctype_after_prolog (doctype @ r)"
  by (simp add: doctype_after_prolog_def doctype_def startswith_def)

lemma generate_qgis_style_content:
  assumes "generate_qgis_style title tostring_pretty doc_root = Inr content"
  shows "startswith content (doctype @ [CHR 0x0A]) \<and> \<not> doctype_after_prolog content"
proof -
  from assms obtain symbs where
    "content = doctype @ [CHR 0x0A] @ tostring_pretty (qgis_style_document symbs)"
    by (auto simp: generate_qgis_style_def split: sum.splits)
  then show ?thesis
    using doctype_first [of "[CHR 0x0A] @ tostring_pretty (qgis_style_document symbs)"]
      startswith_append [of "doctype @ [CHR 0x0A]"
        "tostring_pretty (qgis_style_document symbs)"]
    by simp
qed

lemma points_file_content:
  assumes "startswith
     (write_tree (qgis_style_document (symbols (points_loop q fs (findall_point_cases doc_root)))))
     xml_declaration"
  shows "\<exists>r. points_file write_tree q fs doc_root = xml_declaration @ [CHR 0x0A] @ doctype @ r"
proof -
  from assms obtain r where
    w: "write_tree (qgis_style_document (symbols (points_loop q fs (findall_point_cases doc_root))))
        = xml_declaration @ r"
    using startswith_iff by blast
  have n: "xml_declaration \<noteq> []"
    by (simp add: xml_declaration_def)
  have "points_file write_tree q fs doc_root =
      (xml_declaration @ [CHR 0x0A] @ doctype) @
      replace xml_declaration (xml_declaration @ [CHR 0x0A] @ doctype) r"
    unfolding points_file_def Let_def w by (rule replace_prefix [OF n])
  then show ?thesis by simp
qed

text \<open>
  C8 (as amended). The file of the road pipeline starts with the document type
  declaration and a line break: no XML declaration stands before it, so the document
  type does not follow a prolog. The file of the point pipeline carries the document
  type directly after the XML declaration whenever the serialiser has written that
  declaration in the spelling the script replaces,
  \<^verbatim>\<open><?xml version='1.0' encoding='utf-8'?>\<close>.
\<close>

theorem doctype_placement:
  "(generate_qgis_style title tostring_pretty road_root = Inr content \<longrightarrow>
      startswith content (doctype @ [CHR 0x0A]) \<and> \<not> doctype_after_prolog content) \<and>
   (startswith
      (write_tree (qgis_style_document (symbols (points_loop q fs (findall_point_cases doc_root)))))
      xml_declaration \<longrightarrow>
      startswith (points_file write_tree q fs doc_root)
        (xml_declaration @ [CHR 0x0A] @ doctype) \<and>
      doctype_after_prolog (points_file write_tree q fs doc_root))"
proof (intro conjI impI)
  assume g: "generate_qgis_style title tostring_pretty road_root = Inr content"
  from generate_qgis_style_content [OF g]
  show "startswith content (doctype @ [CHR 0x0A])" and "\<not> doctype_after_prolog content"
    by simp_all
next
  assume "startswith
      (write_tree (qgis_style_document (symbols (points_loop q fs (findall_point_cases doc_root)))))
      xml_declaration"
  then have "\<exists>r. points_file write_tree q fs doc_root =
      xml_declaration @ [CHR 0x0A] @ doctype @ r"
    by (rule points_file_content [of write_tree q fs doc_root])
  then obtain r where
    p: "points_file write_tree q fs doc_root = xml_declaration @ [CHR 0x0A] @ doctype @ r"
    by blast
  show "startswith (points_file write_tree q fs doc_root)
        (xml_declaration @ [CHR 0x0A] @ doctype)"
    unfolding p using startswith_append [of "xml_declaration @ [CHR 0x0A] @ doctype" r]
    by simp
  show "doctype_after_prolog (points_file write_tree q fs doc_root)"
    unfolding p by (rule doctype_after_declaration)
qed

lemma example_generate:
  "generate_qgis_style ascii_title tostring example_roads_document =
     Inr (doctype @ [CHR 0x0A] @
          tostring (qgis_style_document
                      (projr (road_symbols ascii_title example_roads_document))))"
  using example_road_symbols by (auto simp: generate_qgis_style_def)

theorem doctype_placement_witness:
  "generate_qgis_style ascii_title tostring example_roads_document =
     Inr (doctype @ [CHR 0x0A] @
          tostring (qgis_style_document
                      (projr (road_symbols ascii_title example_roads_document)))) \<and>
   startswith
     (doctype @ [CHR 0x0A] @
      tostring (qgis_style_document (projr (road_symbols ascii_title example_roads_document))))
     (doctype @ [CHR 0x0A]) \<and>
   startswith
     (declared_tostring
        (qgis_style_document
           (symbols (points_loop symbols_named example_files
                       (findall_point_cases example_points_document)))))
     xml_declaration \<and>
   doctype_after_prolog
     (points_file declared_tostring symbols_named example_files example_points_document)"
  using
    doctype_placement
      [of ascii_title tostring example_roads_document
          "doctype @ [CHR 0x0A] @
           tostring (qgis_style_document
                       (projr (road_symbols ascii_title example_roads_document)))"
          declared_tostring symbols_named example_files example_points_document]
    example_generate
    startswith_append [of xml_declaration]
  by (simp add: declared_tostring_def)

text \<open>
  C8 as stated has the document type follow the XML prolog in the output of either
  pipeline. The road pipeline writes no prolog: for the example document its file
  begins with the document type.
\<close>

theorem roads_file_without_prolog:
  "map_sum id doctype_after_prolog
     (generate_qgis_style ascii_title tostring example_roads_document) = Inr False"
  using generate_qgis_style_content [OF example_generate] by (simp add: example_generate)

subsection \<open>Symbol names in the two outputs\<close>

lemma road_symbols_names:
  assumes "road_symbols title doc_root = Inr symbs"
  shows "map name_of symbs =
     map (\<lambda>(v, col). Some (road_symbol_name title v))
       (first_by_key fst [] (road_candidates doc_root))"
proof -
  from assms obtain roads where
    r: "extract_road_info title doc_root (extract_color_definitions doc_root) = Inr roads" and
    s: "create_symbols roads = Inr symbs"
    by (auto simp: road_symbols_def split: sum.splits)
  from extract_road_info_result [OF r] have
    n: "map symbol_name roads =
       map (\<lambda>(v, col). road_symbol_name title v) (first_by_key fst [] (road_candidates doc_root))"
    by (rule conjunct2)
  have "map name_of symbs = map Some (map symbol_name roads)"
    using create_symbols_names [OF s] by (simp add: comp_def)
  also have "\<dots> = map Some (map (\<lambda>(v, col). road_symbol_name title v)
       (first_by_key fst [] (road_candidates doc_root)))"
    by (simp only: n)
  also have "\<dots> = map (\<lambda>(v, col). Some (road_symbol_name title v))
       (first_by_key fst [] (road_candidates doc_root))"
    by (simp add: comp_def split_def)
  finally show ?thesis .
qed

lemma points_symbols_first:
  assumes "interpolation_safe q"
    and "list_all (\<lambda>c. apostrophe \<notin> set (case_symbol_name (fst c))) cases"
  shows "symbols (points_loop q fs cases) =
     first_by_key name_of [] (List.map_filter (candidate_symbol fs) cases)"
proof -
  have i: "\<forall>s\<in>set (symbols initial_point_state). is_point_symbol s"
    by (simp add: initial_point_state_def)
  have a: "\<forall>c\<in>set cases. apostrophe \<notin> set (case_symbol_name (fst c))"
    using assms(2) by (simp add: list_all_iff)
  have "symbols (foldl (process_case q fs) initial_point_state cases) =
      symbols initial_point_state @
      first_by_key name_of (map name_of (symbols initial_point_state))
        (List.map_filter (candidate_symbol fs) cases)"
    using assms(1) i a by (rule points_loop_symbols)
  then show ?thesis
    by (simp add: points_loop_def initial_point_state_def)
qed

lemma example_point_cases_safe:
  "list_all (\<lambda>c. apostrophe \<notin> set (case_symbol_name (fst c)))
     (findall_point_cases example_points_document)"
  by code_simp

lemma map_first_by_key:
  "map key (first_by_key key seen xs) = first_by_key id seen (map key xs)"
  by (induction xs arbitrary: seen) auto

lemma map_map_filter:
  "map h (List.map_filter f xs) = List.map_filter (map_option h \<circ> f) xs"
  by (induction xs) (auto simp: List.map_filter_simps split: option.splits)

lemma map_filter_as_map:
  "List.map_filter g xs = map the (filter (\<lambda>y. y \<noteq> None) (map g xs))"
  by (simp add: List.map_filter_def filter_map comp_def)

lemma example_point_candidates:
  "map (map_option name_of \<circ> candidate_symbol example_files)
     (findall_point_cases example_points_document) =
   [Some (Some ''amenity:bench''), Some (Some ''amenity:bench'')]"
  by code_simp

lemma example_point_names:
  "map name_of
     (symbols (points_loop symbols_named example_files
                 (findall_point_cases example_points_document))) =
   [Some ''amenity:bench'']"
proof -
  have s: "interpolation_safe symbols_named"
    by (simp add: interpolation_safe_def)
  have "symbols (points_loop symbols_named example_files
                   (findall_point_cases example_points_document)) =
      first_by_key name_of []
        (List.map_filter (candidate_symbol example_files)
           (findall_point_cases example_points_document))"
    using s example_point_cases_safe by (rule points_symbols_first)
  then have "map name_of
     (symbols (points_loop symbols_named example_files
                 (findall_point_cases example_points_document))) =
     map name_of (first_by_key name_of []
        (List.map_filter (candidate_symbol example_files)
           (findall_point_cases example_points_document)))"
    by (rule arg_cong)
  also have "\<dots> = first_by_key id []
       (map name_of (List.map_filter (candidate_symbol example_files)
           (findall_point_cases example_points_document)))"
    by (rule map_first_by_key)
  also have "\<dots> = first_by_key id []
       (List.map_filter (map_option name_of \<circ> candidate_symbol example_files)
           (findall_point_cases example_points_document))"
    by (simp only: map_map_filter)
  also have "\<dots> = first_by_key id []
       (map the (filter (\<lambda>y. y \<noteq> None)
          (map (map_option name_of \<circ> candidate_symbol example_files)
             (findall_point_cases example_points_document))))"
    by (simp only: map_filter_as_map)
  also have "\<dots> = first_by_key id []
       (map the (filter (\<lambda>y. y \<noteq> None)
          [Some (Some ''amenity:bench''), Some (Some ''amenity:bench'')]))"
    by (simp only: example_point_candidates)
  also have "\<dots> = [Some ''amenity:bench'']"
    by simp
  finally show ?thesis .
qed

text \<open>
  C6 (as amended). In the point output, when no symbol name holds an apostrophe (so
  that the interpolated query is the query by name), the symbols are the first
  candidate of each name in encounter order, and no two of them share a name. In the
  road output the symbols stem from the first rule of each highway \<^emph>\<open>value\<close> in encounter
  order, named \<open>Road\<close> followed by the value with underscores replaced and put in title
  case: the values are pairwise different, the names need not be.
\<close>

theorem symbol_names_first_kept:
  "(interpolation_safe q \<and>
    list_all (\<lambda>c. apostrophe \<notin> set (case_symbol_name (fst c))) (findall_point_cases doc_root) \<longrightarrow>
      symbols (points_loop q fs (findall_point_cases doc_root)) =
        first_by_key name_of []
          (List.map_filter (candidate_symbol fs) (findall_point_cases doc_root)) \<and>
      distinct (map name_of (symbols (points_loop q fs (findall_point_cases doc_root))))) \<and>
   (road_symbols title road_root = Inr symbs \<longrightarrow>
      map name_of symbs =
        map (\<lambda>(v, col). Some (road_symbol_name title v))
          (first_by_key fst [] (road_candidates road_root)) \<and>
      distinct (map fst (first_by_key fst [] (road_candidates road_root))))"
proof (intro conjI impI)
  assume h: "interpolation_safe q \<and>
    list_all (\<lambda>c. apostrophe \<notin> set (case_symbol_name (fst c))) (findall_point_cases doc_root)"
  then have s: "interpolation_safe q" and
    a: "list_all (\<lambda>c. apostrophe \<notin> set (case_symbol_name (fst c))) (findall_point_cases doc_root)"
    by simp_all
  from s a show e: "symbols (points_loop q fs (findall_point_cases doc_root)) =
        first_by_key name_of []
          (List.map_filter (candidate_symbol fs) (findall_point_cases doc_root))"
    by (rule points_symbols_first)
  show "distinct (map name_of (symbols (points_loop q fs (findall_point_cases doc_root))))"
    unfolding e by (rule first_by_key_distinct)
next
  assume "road_symbols title road_root = Inr symbs"
  then show "map name_of symbs =
        map (\<lambda>(v, col). Some (road_symbol_name title v))
          (first_by_key fst [] (road_candidates road_root))"
    by (rule road_symbols_names)
next
  show "distinct (map fst (first_by_key fst [] (road_candidates road_root)))"
    by (rule first_by_key_distinct)
qed

lemma example_road_symbols_projr:
  "road_symbols ascii_title example_roads_document =
     Inr (projr (road_symbols ascii_title example_roads_document))"
  using example_road_symbols by auto

theorem symbol_names_first_kept_witness:
  "interpolation_safe symbols_named \<and>
   list_all (\<lambda>c. apostrophe \<notin> set (case_symbol_name (fst c)))
     (findall_point_cases example_points_document) \<and>
   map name_of
     (symbols (points_loop symbols_named example_files
                 (findall_point_cases example_points_document))) = [Some ''amenity:bench''] \<and>
   distinct (map name_of
     (symbols (points_loop symbols_named example_files
                 (findall_point_cases example_points_document)))) \<and>
   road_symbols ascii_title example_roads_document =
     Inr (projr (road_symbols ascii_title example_roads_document)) \<and>
   map name_of (projr (road_symbols ascii_title example_roads_document)) =
     map (\<lambda>(v, col). Some (road_symbol_name ascii_title v))
       (first_by_key fst [] (road_candidates example_roads_document))"
proof -
  have s: "interpolation_safe symbols_named"
    by (simp add: interpolation_safe_def)
  note t = symbol_names_first_kept
    [of symbols_named example_points_document example_files ascii_title
        example_roads_document "projr (road_symbols ascii_title example_roads_document)"]
  note t1 = t [THEN conjunct1, THEN mp, OF conjI [OF s example_point_cases_safe]]
  have d: "distinct (map name_of
       (symbols (points_loop symbols_named example_files
                   (findall_point_cases example_points_document))))"
    by (rule t1 [THEN conjunct2])
  note t2 = t [THEN conjunct2, THEN mp, OF example_road_symbols_projr]
  have m: "map name_of (projr (road_symbols ascii_title example_roads_document)) =
     map (\<lambda>(v, col). Some (road_symbol_name ascii_title v))
       (first_by_key fst [] (road_candidates example_roads_document))"
    by (rule t2 [THEN conjunct1])
  show ?thesis
    by (intro conjI)
      (rule s example_point_cases_safe example_point_names d example_road_symbols_projr m)+
qed

text \<open>
  C6 as stated has no two symbols of an output share a name. The road pipeline
  tells rules apart by their \<^verbatim>\<open>value\<close>, not by the name made from it: the values
  \<^verbatim>\<open>bus_guideway\<close> and \<^verbatim>\<open>bus guideway\<close> of the example document both give a symbol
  named \<^verbatim>\<open>Road Bus Guideway\<close>, and both are in the output.
\<close>

theorem road_symbols_share_name:
  "map_sum id (map name_of) (road_symbols ascii_title example_roads_document) =
     Inr [Some ''Road Bus Guideway'', Some ''Road Bus Guideway'', Some ''Road Service'',
          Some ''Road Pedestrian'', Some ''Road Footway'', Some ''Road Cycleway'',
          Some ''Road Path'', Some ''Road Bridleway'', Some ''Road Steps'',
          Some ''Road Living Street'', Some ''Road Road''] \<and>
   map_sum id (\<lambda>symbs. distinct (map name_of symbs))
     (road_symbols ascii_title example_roads_document) = Inr False"
proof -
  from example_road_symbols obtain symbs where
    rn: "road_symbols ascii_title example_roads_document = Inr symbs \<and>
       map name_of symbs =
       [Some ''Road Bus Guideway'', Some ''Road Bus Guideway'', Some ''Road Service'',
        Some ''Road Pedestrian'', Some ''Road Footway'', Some ''Road Cycleway'',
        Some ''Road Path'', Some ''Road Bridleway'', Some ''Road Steps'',
        Some ''Road Living Street'', Some ''Road Road'']" ..
  from rn have r: "road_symbols ascii_title example_roads_document = Inr symbs"
    by (rule conjunct1)
  from rn have n: "map name_of symbs =
       [Some ''Road Bus Guideway'', Some ''Road Bus Guideway'', Some ''Road Service'',
        Some ''Road Pedestrian'', Some ''Road Footway'', Some ''Road Cycleway'',
        Some ''Road Path'', Some ''Road Bridleway'', Some ''Road Steps'',
        Some ''Road Living Street'', Some ''Road Road'']"
    by (rule conjunct2)
  have d: "distinct
       [Some ''Road Bus Guideway'', Some ''Road Bus Guideway'', Some ''Road Service'',
        Some ''Road Pedestrian'', Some ''Road Footway'', Some ''Road Cycleway'',
        Some ''Road Path'', Some ''Road Bridleway'', Some ''Road Steps'',
        Some ''Road Living Street'', Some ''Road Road''] = False"
    by simp
  show ?thesis
    by (simp only: r n d map_sum.simps id_apply simp_thms)
qed

end
